theory Spec2Isabelle
  imports Complex_Main
begin

section \<open>Shared values\<close>

text \<open>
  Entity ids and ISO timestamps are strings. A JavaScript number is modelled as an exact
  rational: the finite numbers a JSON document carries, without rounding. NaN and the
  infinities are modelled where the code decides by comparing a supplied number: the
  strength handed to the validating \<open>setRelationship\<close> is a \<open>js_number\<close>. A property
  that may be missing (\<open>undefined\<close>) is an \<open>option\<close>.
  Every operation that reads the clock (\<open>new Date().toISOString()\<close>) takes the reading
  as its first argument \<open>now\<close>.
\<close>

type_synonym ident = string
type_synonym timestamp = string

text \<open>\<open>utils/Constants.js\<close>: the tables the stores consult.\<close>

record bounds =
  bmin :: rat
  bmax :: rat
  bdefault :: rat

datatype relationship_kind = TRUST | FEAR | RESPECT | LOVE | RIVALRY | ALLIANCE

definition RELATIONSHIP_TYPES :: "(relationship_kind \<times> bounds) list" where
  "RELATIONSHIP_TYPES =
     [(TRUST, \<lparr>bmin = 0, bmax = 100, bdefault = 50\<rparr>),
      (FEAR, \<lparr>bmin = 0, bmax = 100, bdefault = 10\<rparr>),
      (RESPECT, \<lparr>bmin = 0, bmax = 100, bdefault = 50\<rparr>),
      (LOVE, \<lparr>bmin = 0, bmax = 100, bdefault = 0\<rparr>),
      (RIVALRY, \<lparr>bmin = 0, bmax = 100, bdefault = 0\<rparr>),
      (ALLIANCE, \<lparr>bmin = 0, bmax = 100, bdefault = 0\<rparr>)]"

definition WORLD_PARAMETERS :: "(string \<times> bounds) list" where
  "WORLD_PARAMETERS =
     [(''GLOBAL_TENSION'', \<lparr>bmin = 0, bmax = 100, bdefault = 30\<rparr>),
      (''POLITICAL_STABILITY'', \<lparr>bmin = 0, bmax = 100, bdefault = 80\<rparr>),
      (''ECONOMIC_STATE'', \<lparr>bmin = 0, bmax = 100, bdefault = 50\<rparr>),
      (''MAGICAL_ACTIVITY'', \<lparr>bmin = 0, bmax = 100, bdefault = 20\<rparr>)]"

text \<open>
  A JavaScript \<open>Map\<close> (and the own properties of a plain object) is an association list
  in insertion order: \<open>set\<close> overwrites the value of a present key in place and appends
  an absent one.
\<close>

definition Map_get :: "('k \<times> 'v) list \<Rightarrow> 'k \<Rightarrow> 'v option" where
  "Map_get m k = map_of m k"

definition Map_has :: "('k \<times> 'v) list \<Rightarrow> 'k \<Rightarrow> bool" where
  "Map_has m k = (map_of m k \<noteq> None)"

fun Map_set :: "'k \<Rightarrow> 'v \<Rightarrow> ('k \<times> 'v) list \<Rightarrow> ('k \<times> 'v) list" where
  "Map_set k v [] = [(k, v)]"
| "Map_set k v ((k', v') # m) =
     (if k' = k then (k, v) # m else (k', v') # Map_set k v m)"

text \<open>\<open>xs.slice(-n)\<close>: the last \<open>n\<close> elements, in order.\<close>

definition slice_last :: "nat \<Rightarrow> 'a list \<Rightarrow> 'a list" where
  "slice_last n xs = drop (length xs - n) xs"

text \<open>The errors the modelled code throws.\<close>

datatype app_message =
    Entity1IdNotNonEmptyString
  | Entity2IdNotNonEmptyString
  | SelfRelationship
  | InvalidRelationshipType
  | StrengthNotBetween0And100

datatype error =
    AppError app_message nat
  | EntityAlreadyExists ident string
  | UnknownEntityType string
  | UnknownGlobalParameter string
  | TypeError

section \<open>Relationship graph\<close>

text \<open>
  The \<open>type\<close> of a relationship is whatever the caller passes: a string such as
  \<open>'ally'\<close>, or a reference to one of the objects of \<open>RELATIONSHIP_TYPES\<close>.
\<close>

datatype type_val = TypeStr string | TypeRef relationship_kind

text \<open>
  The records of the graph are parametric in the type \<open>'n\<close> of a strength. The graph of
  \<open>core/RelationshipGraph.js\<close> is read with the finite numbers (\<open>rat\<close>). The validating
  variant decides by comparisons what it stores, and a comparison with NaN is false, so
  it is read with \<open>js_number\<close>: the finite numbers, NaN and the two infinities.
\<close>

datatype js_number = Finite rat | NaN | PosInfinity | NegInfinity

record 'n hist_entry_of =
  h_timestamp :: timestamp
  h_type :: type_val
  h_strength :: 'n
  h_reason :: string

record 'n relationship_of =
  r_type :: type_val
  r_strength :: 'n
  r_reason :: string
  r_established :: timestamp
  r_lastModified :: timestamp
  r_history :: "'n hist_entry_of list"

record 'n relationship_data_of =
  rd_type :: "type_val option"
  rd_strength :: "'n option"
  rd_reason :: "string option"
  rd_established :: "timestamp option"
  rd_history :: "'n hist_entry_of list option"

record 'n ledger_entry_of =
  le_entity1 :: ident
  le_entity2 :: ident
  le_action :: string
  le_relationship :: "'n relationship_of"
  le_timestamp :: timestamp

type_synonym relationship = "rat relationship_of"
type_synonym relationship_data = "rat relationship_data_of"
type_synonym ledger_entry = "rat ledger_entry_of"

record standing_change =
  sc_amount :: rat
  sc_reason :: string
  sc_timestamp :: timestamp
  sc_previousValue :: rat

record standing =
  st_value :: rat
  st_history :: "standing_change list"
  st_lastChange :: "standing_change option"
  st_established :: timestamp

record standing_data =
  sd_value :: "rat option"
  sd_history :: "standing_change list option"
  sd_lastChange :: "standing_change option"
  sd_established :: "timestamp option"

record 'n relationship_graph_of =
  relationships :: "(ident \<times> (ident \<times> 'n relationship_of) list) list"
  playerStandings :: "(ident \<times> standing) list"
  relationshipHistory :: "'n ledger_entry_of list"

type_synonym relationship_graph = "rat relationship_graph_of"

definition RelationshipGraph_new :: "'n relationship_graph_of" where
  "RelationshipGraph_new =
     \<lparr>relationships = [], playerStandings = [], relationshipHistory = []\<rparr>"

text \<open>\<open>x || d\<close> on the three kinds of value the graph applies it to.\<close>

fun type_truthy :: "type_val \<Rightarrow> bool" where
  "type_truthy (TypeStr s) = (s \<noteq> [])"
| "type_truthy (TypeRef k) = True"

definition or_type :: "type_val option \<Rightarrow> type_val \<Rightarrow> type_val" where
  "or_type x d = (case x of None \<Rightarrow> d | Some t \<Rightarrow> if type_truthy t then t else d)"

definition or_number :: "rat option \<Rightarrow> rat \<Rightarrow> rat" where
  "or_number x d = (case x of None \<Rightarrow> d | Some n \<Rightarrow> if n \<noteq> 0 then n else d)"

definition or_str :: "string option \<Rightarrow> string \<Rightarrow> string" where
  "or_str x d = (case x of None \<Rightarrow> d | Some s \<Rightarrow> if s \<noteq> [] then s else d)"

definition or_list :: "'a list option \<Rightarrow> 'a list \<Rightarrow> 'a list" where
  "or_list x d = (case x of None \<Rightarrow> d | Some xs \<Rightarrow> xs)"

subsection \<open>\<open>core/RelationshipGraph.js\<close>\<close>

definition inner_map :: "'n relationship_graph_of \<Rightarrow> ident \<Rightarrow> (ident \<times> 'n relationship_of) list" where
  "inner_map g e = (case Map_get (relationships g) e of None \<Rightarrow> [] | Some m \<Rightarrow> m)"

definition setRelationship ::
  "timestamp \<Rightarrow> ident \<Rightarrow> ident \<Rightarrow> relationship_data \<Rightarrow> relationship_graph
     \<Rightarrow> relationship \<times> relationship_graph" where
  "setRelationship now entity1Id entity2Id relationshipData g =
     (let r = \<lparr>r_type = or_type (rd_type relationshipData) (TypeStr ''neutral''),
               r_strength = or_number (rd_strength relationshipData) 50,
               r_reason = or_str (rd_reason relationshipData) [],
               r_established = or_str (rd_established relationshipData) now,
               r_lastModified = now,
               r_history = or_list (rd_history relationshipData) []\<rparr>
      in (r, g\<lparr>relationships :=
                  Map_set entity1Id (Map_set entity2Id r (inner_map g entity1Id))
                    (relationships g),
                relationshipHistory := relationshipHistory g @
                  [\<lparr>le_entity1 = entity1Id, le_entity2 = entity2Id,
                    le_action = ''established'', le_relationship = r,
                    le_timestamp = now\<rparr>]\<rparr>))"

definition getRelationship ::
  "relationship_graph \<Rightarrow> ident \<Rightarrow> ident \<Rightarrow> relationship option" where
  "getRelationship g entity1Id entity2Id =
     (case Map_get (relationships g) entity1Id of
        None \<Rightarrow> None
      | Some m \<Rightarrow> Map_get m entity2Id)"

text \<open>
  \<open>calculateRelationshipStrength\<close>: the loop over the entries of the source's map
  carries the two accumulators \<open>indirectStrength\<close> and \<open>connectionCount\<close>.
\<close>

fun indirect_loop ::
  "relationship_graph \<Rightarrow> ident \<Rightarrow> (ident \<times> relationship) list \<Rightarrow> rat \<times> nat \<Rightarrow> rat \<times> nat" where
  "indirect_loop g entity2Id [] acc = acc"
| "indirect_loop g entity2Id ((intermediateId, relationship1) # rest) (indirectStrength, connectionCount) =
     (case getRelationship g intermediateId entity2Id of
        Some relationship2 \<Rightarrow>
          indirect_loop g entity2Id rest
            (indirectStrength + (r_strength relationship1 * r_strength relationship2) / 100,
             connectionCount + 1)
      | None \<Rightarrow> indirect_loop g entity2Id rest (indirectStrength, connectionCount))"

definition calculateRelationshipStrength ::
  "relationship_graph \<Rightarrow> ident \<Rightarrow> ident \<Rightarrow> rat" where
  "calculateRelationshipStrength g entity1Id entity2Id =
     (case getRelationship g entity1Id entity2Id of
        Some directRelationship \<Rightarrow> r_strength directRelationship
      | None \<Rightarrow>
          (let (indirectStrength, connectionCount) =
                 indirect_loop g entity2Id (inner_map g entity1Id) (0, 0)
           in if connectionCount > 0 then indirectStrength / of_nat connectionCount else 0))"

subsection \<open>The validating variant (\<open>unnamed/part_004\<close>)\<close>

text \<open>
  \<open>!id.trim()\<close>: an id is rejected when nothing is left after trimming white space
  (ids are ASCII strings here: tab, line feed, vertical tab, form feed, carriage return,
  space).
\<close>

definition is_space :: "char \<Rightarrow> bool" where
  "is_space c = (c \<in> set [CHR 0x09, CHR 0x0A, CHR 0x0B, CHR 0x0C, CHR 0x0D, CHR '' ''])"

definition blank :: "string \<Rightarrow> bool" where
  "blank s = list_all is_space s"

text \<open>
  \<open>Object.values(RELATIONSHIP_TYPES).includes(type)\<close>: the values of the table are
  objects, compared by identity, so a string is never among them.
\<close>

fun type_recognized :: "type_val \<Rightarrow> bool" where
  "type_recognized (TypeStr s) = False"
| "type_recognized (TypeRef k) = (k \<in> set (map fst RELATIONSHIP_TYPES))"

text \<open>
  \<open>strength < n\<close>, \<open>strength > n\<close>, \<open>Math.min(n, strength)\<close> and \<open>Math.max(n, strength)\<close>
  for a finite \<open>n\<close>: a comparison with NaN is false, and the minimum or maximum with
  NaN is NaN.
\<close>

fun num_less :: "js_number \<Rightarrow> rat \<Rightarrow> bool" where
  "num_less (Finite x) n = (x < n)"
| "num_less NaN n = False"
| "num_less PosInfinity n = False"
| "num_less NegInfinity n = True"

fun num_greater :: "js_number \<Rightarrow> rat \<Rightarrow> bool" where
  "num_greater (Finite x) n = (n < x)"
| "num_greater NaN n = False"
| "num_greater PosInfinity n = True"
| "num_greater NegInfinity n = False"

fun Math_min :: "rat \<Rightarrow> js_number \<Rightarrow> js_number" where
  "Math_min n (Finite x) = Finite (min n x)"
| "Math_min n NaN = NaN"
| "Math_min n PosInfinity = Finite n"
| "Math_min n NegInfinity = NegInfinity"

fun Math_max :: "rat \<Rightarrow> js_number \<Rightarrow> js_number" where
  "Math_max n (Finite x) = Finite (max n x)"
| "Math_max n NaN = NaN"
| "Math_max n PosInfinity = PosInfinity"
| "Math_max n NegInfinity = Finite n"

text \<open>
  The supplied \<open>strength\<close> is a number (the check \<open>typeof strength !== 'number'\<close> rejects
  anything else).
\<close>

definition setRelationship_part004 ::
  "timestamp \<Rightarrow> ident \<Rightarrow> ident \<Rightarrow> js_number relationship_data_of
     \<Rightarrow> js_number relationship_graph_of
     \<Rightarrow> error + js_number relationship_of \<times> js_number relationship_graph_of" where
  "setRelationship_part004 now entity1Id entity2Id relationshipData g =
     (if blank entity1Id then Inl (AppError Entity1IdNotNonEmptyString 400)
      else if blank entity2Id then Inl (AppError Entity2IdNotNonEmptyString 400)
      else if entity1Id = entity2Id then Inl (AppError SelfRelationship 400)
      else
        let type = (case rd_type relationshipData of None \<Rightarrow> TypeStr ''neutral'' | Some t \<Rightarrow> t);
            strength = (case rd_strength relationshipData of None \<Rightarrow> Finite 50 | Some s \<Rightarrow> s);
            reason = (case rd_reason relationshipData of None \<Rightarrow> [] | Some s \<Rightarrow> s)
        in if \<not> type_recognized type then Inl (AppError InvalidRelationshipType 400)
           else if num_less strength 0 \<or> num_greater strength 100
           then Inl (AppError StrengthNotBetween0And100 400)
           else
             let existingRelationship = Map_get (inner_map g entity1Id) entity2Id;
                 r = \<lparr>r_type = type,
                      r_strength = Math_max 0 (Math_min 100 strength),
                      r_reason = reason,
                      r_established = or_str (rd_established relationshipData) now,
                      r_lastModified = now,
                      r_history =
                        (case existingRelationship of None \<Rightarrow> [] | Some old \<Rightarrow> r_history old) @
                        [\<lparr>h_timestamp = now, h_type = type, h_strength = strength,
                          h_reason = or_str (Some reason) ''Relationship updated''\<rparr>]\<rparr>;
                 rels1 = Map_set entity1Id (Map_set entity2Id r (inner_map g entity1Id))
                           (relationships g);
                 rels2 = (if Map_has rels1 entity2Id then rels1 else Map_set entity2Id [] rels1);
                 ledger = relationshipHistory g @
                   [\<lparr>le_entity1 = entity1Id, le_entity2 = entity2Id,
                     le_action = (if existingRelationship \<noteq> None then ''updated'' else ''established''),
                     le_relationship = r, le_timestamp = now\<rparr>]
             in Inr (r, g\<lparr>relationships := rels2,
                          relationshipHistory :=
                            (if length ledger > 1000 then slice_last 1000 ledger else ledger)\<rparr>))"

definition getRelationship_part004 ::
  "js_number relationship_graph_of \<Rightarrow> ident \<Rightarrow> ident \<Rightarrow> js_number relationship_of option" where
  "getRelationship_part004 g entity1Id entity2Id =
     (if \<not> Map_has (relationships g) entity1Id \<or> \<not> Map_has (inner_map g entity1Id) entity2Id
      then None
      else Map_get (inner_map g entity1Id) entity2Id)"

subsection \<open>The derived strength as the specification words it\<close>

text \<open>
  The two-hop paths from \<open>a\<close> to \<open>b\<close>: one pair of edges \<open>(a \<rightarrow> c, c \<rightarrow> b)\<close> for every
  intermediary \<open>c\<close> that \<open>a\<close> has an edge to and that has an edge to \<open>b\<close>. The derived
  strength is the direct edge's strength, else the average over these paths of the
  product of the two strengths divided by 100, else 0.
\<close>

definition two_hop_paths :: "relationship_graph \<Rightarrow> ident \<Rightarrow> ident \<Rightarrow> (relationship \<times> relationship) list" where
  "two_hop_paths g a b =
     concat (map (\<lambda>(c, r1). case getRelationship g c b of None \<Rightarrow> [] | Some r2 \<Rightarrow> [(r1, r2)])
                 (inner_map g a))"

definition derived_strength :: "relationship_graph \<Rightarrow> ident \<Rightarrow> ident \<Rightarrow> rat" where
  "derived_strength g a b =
     (case getRelationship g a b of
        Some r \<Rightarrow> r_strength r
      | None \<Rightarrow>
          if two_hop_paths g a b = [] then 0
          else sum_list (map (\<lambda>(r1, r2). (r_strength r1 * r_strength r2) / 100) (two_hop_paths g a b))
               / of_nat (length (two_hop_paths g a b)))"

subsection \<open>Example inputs\<close>

definition rdata :: "type_val \<Rightarrow> 'n \<Rightarrow> 'n relationship_data_of" where
  "rdata t s = \<lparr>rd_type = Some t, rd_strength = Some s, rd_reason = None,
                rd_established = None, rd_history = None\<rparr>"


text \<open>Two edges \<open>alice \<rightarrow> carol\<close> (80) and \<open>carol \<rightarrow> bob\<close> (60), no edge \<open>alice \<rightarrow> bob\<close>.\<close>

definition graph_80_60 :: relationship_graph where
  "graph_80_60 =
     snd (setRelationship ''t2'' ''carol'' ''bob'' (rdata (TypeStr ''ally'') 60)
       (snd (setRelationship ''t1'' ''alice'' ''carol'' (rdata (TypeStr ''ally'') 80)
          RelationshipGraph_new)))"

subsection \<open>Player standings, export and import (\<open>core/RelationshipGraph.js\<close>)\<close>

definition setPlayerStanding ::
  "timestamp \<Rightarrow> ident \<Rightarrow> standing_data \<Rightarrow> relationship_graph \<Rightarrow> relationship_graph" where
  "setPlayerStanding now entityId standing g =
     g\<lparr>playerStandings :=
         Map_set entityId
           \<lparr>st_value = or_number (sd_value standing) 0,
            st_history = or_list (sd_history standing) [],
            st_lastChange = sd_lastChange standing,
            st_established = or_str (sd_established standing) now\<rparr>
           (playerStandings g)\<rparr>"

text \<open>
  \<open>Object.fromEntries(entries)\<close> and \<open>new Map(entries)\<close> both take the entries in
  turn, a later entry overwriting an earlier one of the same key; \<open>Object.entries\<close> and
  \<open>Map.entries\<close> give the entries back. (The order in which an object enumerates keys
  that look like integers is not modelled; nothing here depends on the order.)
\<close>

definition from_entries :: "('k \<times> 'v) list \<Rightarrow> ('k \<times> 'v) list" where
  "from_entries es = foldl (\<lambda>m kv. Map_set (fst kv) (snd kv) m) [] es"

record relationships_export =
  re_relationships :: "(ident \<times> (ident \<times> relationship) list) list option"
  re_playerStandings :: "(ident \<times> standing) list option"
  re_relationshipHistory :: "ledger_entry list option"
  re_timestamp :: "timestamp option"

definition exportRelationships :: "timestamp \<Rightarrow> relationship_graph \<Rightarrow> relationships_export" where
  "exportRelationships now g =
     \<lparr>re_relationships =
        Some (from_entries (map (\<lambda>kv. (fst kv, from_entries (snd kv))) (relationships g))),
      re_playerStandings = Some (from_entries (playerStandings g)),
      re_relationshipHistory = Some (slice_last 100 (relationshipHistory g)),
      re_timestamp = Some now\<rparr>"

definition importRelationships :: "relationships_export \<Rightarrow> relationship_graph \<Rightarrow> relationship_graph" where
  "importRelationships data g =
     g\<lparr>relationships :=
         (case re_relationships data of
            None \<Rightarrow> []
          | Some rels \<Rightarrow>
              foldl (\<lambda>m kv. Map_set (fst kv) (from_entries (snd kv)) m) [] rels),
       playerStandings :=
         from_entries (case re_playerStandings data of None \<Rightarrow> [] | Some ps \<Rightarrow> ps),
       relationshipHistory :=
         (case re_relationshipHistory data of None \<Rightarrow> [] | Some h \<Rightarrow> h)\<rparr>"

text \<open>
  The association lists that stand for a \<open>Map\<close> have no key twice. Every graph the
  operations build has this property.
\<close>

definition graph_maps_wf :: "relationship_graph \<Rightarrow> bool" where
  "graph_maps_wf g =
     (distinct (map fst (relationships g))
      \<and> list_all (\<lambda>kv. distinct (map fst (snd kv))) (relationships g)
      \<and> distinct (map fst (playerStandings g)))"

section \<open>Entities\<close>

text \<open>
  The data of a proposed or stored entity is a JSON object: its own properties, as an
  association list. Reading a missing property gives \<open>undefined\<close> (\<open>None\<close>). Property
  names inherited from \<open>Object.prototype\<close> are outside the model.
\<close>

datatype json =
    JNull
  | JBool bool
  | JNum rat
  | JStr string
  | JArr "json list"
  | JObj "(string \<times> json) list"

type_synonym props = "(string \<times> json) list"

fun truthy :: "json \<Rightarrow> bool" where
  "truthy JNull = False"
| "truthy (JBool b) = b"
| "truthy (JNum n) = (n \<noteq> 0)"
| "truthy (JStr s) = (s \<noteq> [])"
| "truthy (JArr xs) = True"
| "truthy (JObj ps) = True"

definition get_prop :: "props \<Rightarrow> string \<Rightarrow> json option" where
  "get_prop obj f = Map_get obj f"

definition or_json :: "json option \<Rightarrow> json \<Rightarrow> json" where
  "or_json x d = (case x of None \<Rightarrow> d | Some v \<Rightarrow> if truthy v then v else d)"

subsection \<open>\<open>utils/DataStructures.js\<close> (\<open>unnamed/part_000\<close>): the five constructors\<close>

type_synonym entity = props

definition ENTITY_TYPES :: "string list" where
  "ENTITY_TYPES = [''npc'', ''faction'', ''location'', ''item'', ''event'']"

definition type_default :: "relationship_kind \<Rightarrow> rat" where
  "type_default k = (case map_of RELATIONSHIP_TYPES k of None \<Rightarrow> 0 | Some b \<Rightarrow> bdefault b)"

definition Entity :: "timestamp \<Rightarrow> ident \<Rightarrow> string \<Rightarrow> props \<Rightarrow> entity" where
  "Entity now eid type data =
     [(''id'', JStr eid), (''type'', JStr type), (''created'', JStr now),
      (''lastModified'', JStr now),
      (''metadata'', or_json (get_prop data ''metadata'') (JObj []))]"

text \<open>\<open>this.f = data.f || d\<close>, for each \<open>(f, d)\<close> of a list in turn.\<close>

definition assign_or :: "props \<Rightarrow> entity \<Rightarrow> string \<times> json \<Rightarrow> entity" where
  "assign_or data this fd = Map_set (fst fd) (or_json (get_prop data (fst fd)) (snd fd)) this"

definition assign_defaults :: "props \<Rightarrow> (string \<times> json) list \<Rightarrow> entity \<Rightarrow> entity" where
  "assign_defaults data fds this = foldl (assign_or data) this fds"

definition NPC :: "timestamp \<Rightarrow> ident \<Rightarrow> props \<Rightarrow> entity" where
  "NPC now eid data =
     (let name = or_json (get_prop data ''name'') (JStr ''Unknown'');
          this = Entity now eid ''npc'' data;
          this = Map_set ''name'' name this;
          this = assign_defaults data
                   [(''displayName'', name), (''occupation'', JStr ''unknown''),
                    (''age'', JNum 30), (''location'', JNull), (''traits'', JArr []),
                    (''backstory'', JStr []), (''goals'', JArr []), (''secrets'', JArr []),
                    (''mood'', JStr ''neutral''), (''importance'', JStr ''medium''),
                    (''trust'', JNum (type_default TRUST)), (''fear'', JNum (type_default FEAR)),
                    (''respect'', JNum (type_default RESPECT)), (''love'', JNum (type_default LOVE)),
                    (''met'', JBool False)] this;
          this = Map_set ''alive'' (JBool (get_prop data ''alive'' \<noteq> Some (JBool False))) this
      in assign_defaults data
           [(''health'', JNum 100), (''lastSeen'', JNull), (''relationships'', JObj [])] this)"

definition Faction :: "timestamp \<Rightarrow> ident \<Rightarrow> props \<Rightarrow> entity" where
  "Faction now eid data =
     (let name = or_json (get_prop data ''name'') (JStr ''Unknown Faction'');
          this = Entity now eid ''faction'' data;
          this = Map_set ''name'' name this
      in assign_defaults data
           [(''displayName'', name), (''type'', JStr ''political''), (''influence'', JNum 40),
            (''wealth'', JNum 50), (''militaryPower'', JNum 30), (''attitude'', JStr ''neutral''),
            (''territory'', JArr []), (''goals'', JArr []), (''allies'', JArr []),
            (''enemies'', JArr []), (''secrets'', JArr []), (''leadership'', JArr []),
            (''foundedYear'', JStr ''unknown''), (''reputation'', JStr ''unknown'')] this)"

definition Location :: "timestamp \<Rightarrow> ident \<Rightarrow> props \<Rightarrow> entity" where
  "Location now eid data =
     (let name = or_json (get_prop data ''name'') (JStr ''Unknown Location'');
          this = Entity now eid ''location'' data;
          this = Map_set ''name'' name this
      in assign_defaults data
           [(''displayName'', name), (''type'', JStr ''settlement''), (''visited'', JBool False),
            (''safety'', JNum 70), (''description'', JStr []), (''atmosphere'', JStr ''neutral''),
            (''connectedTo'', JArr []), (''controlledBy'', JNull), (''events'', JArr []),
            (''secrets'', JArr []), (''resources'', JArr []), (''population'', JNum 0),
            (''wealth'', JStr ''poor'')] this)"

definition Item :: "timestamp \<Rightarrow> ident \<Rightarrow> props \<Rightarrow> entity" where
  "Item now eid data =
     (let name = or_json (get_prop data ''name'') (JStr ''Unknown Item'');
          this = Entity now eid ''item'' data;
          this = Map_set ''name'' name this
      in assign_defaults data
           [(''displayName'', name), (''type'', JStr ''misc''), (''subtype'', JStr []),
            (''value'', JNum 50), (''weight'', JNum 1), (''durability'', JNum 100),
            (''description'', JStr []), (''enchantments'', JArr []), (''history'', JStr ''unknown''),
            (''location'', JStr ''world''), (''rarity'', JStr ''common''),
            (''properties'', JArr [])] this)"

definition GameEvent :: "timestamp \<Rightarrow> ident \<Rightarrow> props \<Rightarrow> entity" where
  "GameEvent now eid data =
     (let name = or_json (get_prop data ''name'') (JStr ''Unknown Event'');
          this = Entity now eid ''event'' data;
          this = Map_set ''name'' name this
      in assign_defaults data
           [(''displayName'', name), (''type'', JStr ''social''), (''scope'', JStr ''local''),
            (''duration'', JStr ''ongoing''), (''consequences'', JArr []),
            (''startTime'', JStr now), (''participants'', JArr []),
            (''completed'', JBool False)] this)"

subsection \<open>\<open>core/EntityManager.js\<close>\<close>

record creation_record =
  cr_id :: ident
  cr_created :: timestamp
  cr_data :: props

record entity_manager =
  entities :: "(string \<times> (ident \<times> entity) list) list"
  creationHistory :: "(string \<times> creation_record list) list"

definition EntityManager_new :: entity_manager where
  "EntityManager_new =
     \<lparr>entities = map (\<lambda>t. (t, [])) ENTITY_TYPES,
      creationHistory = map (\<lambda>t. (t, [])) ENTITY_TYPES\<rparr>"

text \<open>The \<open>switch\<close> of \<open>createEntity\<close>; \<open>None\<close> is its \<open>default\<close> branch.\<close>

definition construct :: "timestamp \<Rightarrow> string \<Rightarrow> ident \<Rightarrow> props \<Rightarrow> entity option" where
  "construct now type eid data =
     (if type = ''npc'' then Some (NPC now eid data)
      else if type = ''faction'' then Some (Faction now eid data)
      else if type = ''location'' then Some (Location now eid data)
      else if type = ''item'' then Some (Item now eid data)
      else if type = ''event'' then Some (GameEvent now eid data)
      else None)"

text \<open>
  A call returns its result, or the error it throws, together with the store as the call
  leaves it. Reading \<open>this.entities[type][id]\<close> for a kind the store has no table for is
  a \<open>TypeError\<close>.
\<close>

definition createEntity ::
  "timestamp \<Rightarrow> string \<Rightarrow> ident \<Rightarrow> props \<Rightarrow> entity_manager \<Rightarrow> (error + entity) \<times> entity_manager" where
  "createEntity now type eid data em =
     (case Map_get (entities em) type of
        None \<Rightarrow> (Inl TypeError, em)
      | Some table \<Rightarrow>
          if Map_has table eid then (Inl (EntityAlreadyExists eid type), em)
          else
            (case construct now type eid data of
               None \<Rightarrow> (Inl (UnknownEntityType type), em)
             | Some entity \<Rightarrow>
                 let em1 = em\<lparr>entities := Map_set type (Map_set eid entity table) (entities em)\<rparr>
                 in (case Map_get (creationHistory em) type of
                       None \<Rightarrow> (Inl TypeError, em1)
                     | Some h \<Rightarrow>
                         (Inr entity,
                          em1\<lparr>creationHistory :=
                                Map_set type
                                  (h @ [\<lparr>cr_id = eid, cr_created = now, cr_data = data\<rparr>])
                                  (creationHistory em)\<rparr>))))"

definition getEntity :: "entity_manager \<Rightarrow> string \<Rightarrow> ident \<Rightarrow> error + entity option" where
  "getEntity em type eid =
     (case Map_get (entities em) type of
        None \<Rightarrow> Inl TypeError
      | Some table \<Rightarrow> Inr (Map_get table eid))"

definition getAllEntities :: "entity_manager \<Rightarrow> string \<Rightarrow> error + entity list" where
  "getAllEntities em type =
     (case Map_get (entities em) type of
        None \<Rightarrow> Inl TypeError
      | Some table \<Rightarrow> Inr (map snd table))"

record entities_export =
  ee_entities :: "(string \<times> (ident \<times> entity) list) list option"
  ee_creationHistory :: "(string \<times> creation_record list) list option"
  ee_timestamp :: "timestamp option"

definition exportEntities :: "timestamp \<Rightarrow> entity_manager \<Rightarrow> entities_export" where
  "exportEntities now em =
     \<lparr>ee_entities = Some (entities em), ee_creationHistory = Some (creationHistory em),
      ee_timestamp = Some now\<rparr>"

text \<open>\<open>this.entities = data.entities || this.entities\<close>: an object is truthy.\<close>

definition importEntities :: "entities_export \<Rightarrow> entity_manager \<Rightarrow> entity_manager" where
  "importEntities data em =
     em\<lparr>entities := (case ee_entities data of None \<Rightarrow> entities em | Some e \<Rightarrow> e),
        creationHistory :=
          (case ee_creationHistory data of None \<Rightarrow> creationHistory em | Some h \<Rightarrow> h)\<rparr>"

section \<open>World state (\<open>unnamed/part_006\<close>)\<close>

text \<open>\<open>String.prototype.toUpperCase\<close> on ASCII strings.\<close>

definition upper_char :: "char \<Rightarrow> char" where
  "upper_char c =
     (case map_of (zip ''abcdefghijklmnopqrstuvwxyz'' ''ABCDEFGHIJKLMNOPQRSTUVWXYZ'') c of
        None \<Rightarrow> c
      | Some u \<Rightarrow> u)"

definition toUpperCase :: "string \<Rightarrow> string" where
  "toUpperCase s = map upper_char s"

record parameter_change =
  pc_parameter :: string
  pc_oldValue :: rat
  pc_newValue :: rat
  pc_change :: rat
  pc_reason :: string
  pc_timestamp :: timestamp

text \<open>
  The entries of \<open>history.worldChanges\<close>: a parameter change, or one of the other
  records (time advancement, event added, event completed), kept as JSON.
\<close>

datatype world_change = ParameterChange parameter_change | OtherChange json

text \<open>A rumor as \<open>addRumor\<close> stores it; its random \<open>accuracy\<close> is left out.\<close>

record rumor =
  ru_content :: string
  ru_spread :: nat
  ru_timestamp :: timestamp

record news_item =
  ni_content :: string
  ni_importance :: string
  ni_timestamp :: timestamp

record world_state =
  globalParameters :: "(string \<times> rat) list"
  temporal :: json
  events :: json
  rumorMill :: "rumor list"
  news :: "news_item list"
  secrets :: "json list"
  prophecies :: "json list"
  majorEvents :: "json list"
  decisiveChoices :: "json list"
  worldChanges :: "world_change list"

definition world_default :: "string \<Rightarrow> rat" where
  "world_default k = (case map_of WORLD_PARAMETERS k of None \<Rightarrow> 0 | Some b \<Rightarrow> bdefault b)"

definition WorldState_new :: world_state where
  "WorldState_new =
     \<lparr>globalParameters =
        [(''tension'', world_default ''GLOBAL_TENSION''),
         (''politicalStability'', world_default ''POLITICAL_STABILITY''),
         (''economicState'', world_default ''ECONOMIC_STATE''),
         (''magicalActivity'', world_default ''MAGICAL_ACTIVITY'')],
      temporal =
        JObj [(''timeOfDay'', JStr ''morning''), (''season'', JStr ''spring''),
              (''weather'', JStr ''clear''), (''day'', JNum 1), (''month'', JStr ''firstmonth''),
              (''year'', JNum 1000)],
      events =
        JObj [(''current'', JArr []), (''completed'', JArr []), (''failed'', JArr []),
              (''scheduled'', JArr [])],
      rumorMill = [], news = [], secrets = [], prophecies = [],
      majorEvents = [], decisiveChoices = [], worldChanges = []\<rparr>"

definition recordWorldChange :: "world_change \<Rightarrow> world_state \<Rightarrow> world_state" where
  "recordWorldChange change ws =
     (let changes = worldChanges ws @ [change]
      in ws\<lparr>worldChanges := (if length changes > 100 then slice_last 100 changes else changes)\<rparr>)"

text \<open>
  \<open>updateGlobalParameter\<close>: the bounds are read from
  \<open>WORLD_PARAMETERS[parameter.toUpperCase()]\<close>; when the table has no such key,
  \<open>bounds\<close> is \<open>undefined\<close> and reading \<open>bounds.min\<close> throws a \<open>TypeError\<close> before
  anything is written.
\<close>

definition updateGlobalParameter ::
  "timestamp \<Rightarrow> string \<Rightarrow> rat \<Rightarrow> string \<Rightarrow> world_state \<Rightarrow> (error + rat) \<times> world_state" where
  "updateGlobalParameter now parameter change reason ws =
     (case Map_get (globalParameters ws) parameter of
        Some oldValue \<Rightarrow>
          (case Map_get WORLD_PARAMETERS (toUpperCase parameter) of
             None \<Rightarrow> (Inl TypeError, ws)
           | Some bounds \<Rightarrow>
               let newValue = max (bmin bounds) (min (bmax bounds) (oldValue + change));
                   ws1 = ws\<lparr>globalParameters := Map_set parameter newValue (globalParameters ws)\<rparr>
               in (Inr newValue,
                   recordWorldChange
                     (ParameterChange
                        \<lparr>pc_parameter = parameter, pc_oldValue = oldValue, pc_newValue = newValue,
                         pc_change = change, pc_reason = reason, pc_timestamp = now\<rparr>)
                     ws1))
      | None \<Rightarrow> (Inl (UnknownGlobalParameter parameter), ws))"

definition addRumor :: "timestamp \<Rightarrow> string \<Rightarrow> world_state \<Rightarrow> world_state" where
  "addRumor now r ws =
     (let mill = rumorMill ws @ [\<lparr>ru_content = r, ru_spread = 1, ru_timestamp = now\<rparr>]
      in ws\<lparr>rumorMill := (if length mill > 15 then slice_last 15 mill else mill)\<rparr>)"

definition addNews :: "timestamp \<Rightarrow> string \<Rightarrow> world_state \<Rightarrow> world_state" where
  "addNews now newsItem ws =
     (let items = \<lparr>ni_content = newsItem, ni_importance = ''medium'', ni_timestamp = now\<rparr> # news ws
      in ws\<lparr>news := (if length items > 20 then take 20 items else items)\<rparr>)"

record world_export =
  we_globalParameters :: "(string \<times> rat) list option"
  we_temporal :: "json option"
  we_events :: "json option"
  we_rumorMill :: "rumor list"
  we_news :: "news_item list"
  we_secrets :: "json list"
  we_prophecies :: "json list"
  we_information_present :: bool
  we_majorEvents :: "json list"
  we_decisiveChoices :: "json list"
  we_worldChanges :: "world_change list"
  we_history_present :: bool
  we_timestamp :: "timestamp option"

definition exportWorldState :: "timestamp \<Rightarrow> world_state \<Rightarrow> world_export" where
  "exportWorldState now ws =
     \<lparr>we_globalParameters = Some (globalParameters ws),
      we_temporal = Some (temporal ws),
      we_events = Some (events ws),
      we_rumorMill = rumorMill ws, we_news = news ws, we_secrets = secrets ws,
      we_prophecies = prophecies ws, we_information_present = True,
      we_majorEvents = majorEvents ws,
      we_decisiveChoices = slice_last 20 (decisiveChoices ws),
      we_worldChanges = slice_last 50 (worldChanges ws),
      we_history_present = True,
      we_timestamp = Some now\<rparr>"

text \<open>
  \<open>importWorldState\<close>: each of the five sections replaces the current one when the
  document has it (\<open>data.x || this.x\<close>, an object being truthy).
\<close>

definition importWorldState :: "world_export \<Rightarrow> world_state \<Rightarrow> world_state" where
  "importWorldState data ws =
     (let ws = ws\<lparr>globalParameters :=
                   (case we_globalParameters data of None \<Rightarrow> globalParameters ws | Some p \<Rightarrow> p),
                 temporal := (case we_temporal data of None \<Rightarrow> temporal ws | Some t \<Rightarrow> t),
                 events := (case we_events data of None \<Rightarrow> events ws | Some e \<Rightarrow> e)\<rparr>;
          ws = (if we_information_present data
                then ws\<lparr>rumorMill := we_rumorMill data, news := we_news data,
                        secrets := we_secrets data, prophecies := we_prophecies data\<rparr>
                else ws)
      in if we_history_present data
         then ws\<lparr>majorEvents := we_majorEvents data, decisiveChoices := we_decisiveChoices data,
                 worldChanges := we_worldChanges data\<rparr>
         else ws)"

section \<open>Validation (\<open>unnamed/part_007\<close>)\<close>

text \<open>
  The conversions JavaScript applies to a value that is not already of the wanted type
  (a string compared with a number, a number used as a property name) are not spelled
  out: they are a parameter \<open>js\<close> of the functions that may meet them, and every result
  holds whatever these conversions return.
\<close>

record coercions =
  ToNumber :: "json \<Rightarrow> rat option"
  ToPropertyKey :: "json \<Rightarrow> string"

definition to_number :: "coercions \<Rightarrow> json \<Rightarrow> rat option" where
  "to_number js v = (case v of JNum n \<Rightarrow> Some n | _ \<Rightarrow> ToNumber js v)"

definition to_key :: "coercions \<Rightarrow> json \<Rightarrow> string" where
  "to_key js v = (case v of JStr s \<Rightarrow> s | _ \<Rightarrow> ToPropertyKey js v)"

text \<open>\<open>v < n\<close> and \<open>v > n\<close> against a number; a comparison with NaN (\<open>None\<close>) is false.\<close>

definition js_less :: "coercions \<Rightarrow> json \<Rightarrow> rat \<Rightarrow> bool" where
  "js_less js v n = (case to_number js v of None \<Rightarrow> False | Some x \<Rightarrow> x < n)"

definition js_greater :: "coercions \<Rightarrow> json \<Rightarrow> rat \<Rightarrow> bool" where
  "js_greater js v n = (case to_number js v of None \<Rightarrow> False | Some x \<Rightarrow> n < x)"

text \<open>
  \<open>x === y\<close> on property values: equal primitives. Arrays and objects are compared by
  identity, and a stored one is never the one of the payload under validation.
\<close>

fun strict_eq :: "json option \<Rightarrow> json option \<Rightarrow> bool" where
  "strict_eq None None = True"
| "strict_eq (Some JNull) (Some JNull) = True"
| "strict_eq (Some (JBool a)) (Some (JBool b)) = (a = b)"
| "strict_eq (Some (JNum a)) (Some (JNum b)) = (a = b)"
| "strict_eq (Some (JStr a)) (Some (JStr b)) = (a = b)"
| "strict_eq x y = False"

definition truthy_opt :: "json option \<Rightarrow> bool" where
  "truthy_opt x = (case x of None \<Rightarrow> False | Some v \<Rightarrow> truthy v)"

definition MAX_NPCS_PER_LOCATION :: nat where
  "MAX_NPCS_PER_LOCATION = 15"

text \<open>The texts of the warnings, with the values they interpolate.\<close>

datatype message =
    LocationAtCapacity "json option" nat
  | NpcNameExists "json option"
  | NpcAgeOutOfRange
  | OccupationUnsuitable "json option" "json option"

record validation =
  valid :: bool
  warnings :: "message list"
  requirements :: "message list"
  v_reason :: "message option"

record game_state =
  gs_entities :: "(string \<times> (ident \<times> entity) list) list"
  gs_relationships :: relationship_graph
  gs_worldState :: world_state
  gs_player :: json

definition compatibilityMap :: "(string \<times> string list) list" where
  "compatibilityMap =
     [(''merchant'', [''settlement'', ''structure'']),
      (''guard'', [''settlement'', ''structure'']),
      (''farmer'', [''settlement'', ''wilderness'']),
      (''bandit'', [''wilderness'']),
      (''scholar'', [''settlement'', ''structure'']),
      (''noble'', [''settlement'', ''structure'']),
      (''priest'', [''settlement'', ''structure'']),
      (''hermit'', [''wilderness'', ''landmark'']),
      (''blacksmith'', [''settlement'']),
      (''tavern_keeper'', [''settlement'']),
      (''soldier'', [''settlement'', ''structure'']),
      (''mage'', [''settlement'', ''structure'', ''landmark'']),
      (''thief'', [''settlement'', ''wilderness''])]"

text \<open>\<open>checkOccupationLocationCompatibility\<close>: \<open>None\<close> is \<open>{compatible: true}\<close>.\<close>

definition checkOccupationLocationCompatibility ::
  "coercions \<Rightarrow> json \<Rightarrow> entity \<Rightarrow> message option" where
  "checkOccupationLocationCompatibility js occupation locationData =
     (let compatibleTypes =
            (case Map_get compatibilityMap (to_key js occupation) of
               None \<Rightarrow> [''settlement'', ''wilderness'', ''structure'', ''landmark'']
             | Some ts \<Rightarrow> ts)
      in if list_ex (\<lambda>t. strict_eq (Some (JStr t)) (get_prop locationData ''type'')) compatibleTypes
         then None
         else Some (OccupationUnsuitable (Some occupation) (get_prop locationData ''type'')))"

definition table_of :: "(string \<times> (ident \<times> entity) list) list \<Rightarrow> string \<Rightarrow> (ident \<times> entity) list" where
  "table_of ents type = (case Map_get ents type of None \<Rightarrow> [] | Some t \<Rightarrow> t)"

text \<open>The section "validate occupation consistency" of \<open>validateNPCCreation\<close>.\<close>

definition occupation_consistency ::
  "coercions \<Rightarrow> props \<Rightarrow> game_state \<Rightarrow> validation \<Rightarrow> validation" where
  "occupation_consistency js npcData gameState validation =
     (case (get_prop npcData ''occupation'', get_prop npcData ''location'') of
        (Some occupation, Some location) \<Rightarrow>
          if truthy occupation \<and> truthy location
          then (case Map_get (table_of (gs_entities gameState) ''location'') (to_key js location) of
                  None \<Rightarrow> validation
                | Some locationData \<Rightarrow>
                    (case checkOccupationLocationCompatibility js occupation locationData of
                       None \<Rightarrow> validation
                     | Some w \<Rightarrow> validation\<lparr>warnings := warnings validation @ [w]\<rparr>))
          else validation
      | _ \<Rightarrow> validation)"

text \<open>
  \<open>validateNPCCreation\<close> of a validation system with no custom validator registered
  (the repository registers none). It never sets a \<open>reason\<close>: what it has to say goes
  to \<open>warnings\<close>.
\<close>

definition validateNPCCreation :: "coercions \<Rightarrow> props \<Rightarrow> game_state \<Rightarrow> validation" where
  "validateNPCCreation js npcData gameState =
     (let validation = \<lparr>valid = True, warnings = [], requirements = [], v_reason = None\<rparr>;
          existingNPCs = map snd (table_of (gs_entities gameState) ''npc'');
          locationNPCs = filter (\<lambda>npc. strict_eq (get_prop npc ''location'') (get_prop npcData ''location''))
                           existingNPCs
      in if truthy_opt (get_prop npcData ''location'') \<and> length locationNPCs \<ge> MAX_NPCS_PER_LOCATION
         then validation\<lparr>valid := False,
                warnings := [LocationAtCapacity (get_prop npcData ''location'') MAX_NPCS_PER_LOCATION]\<rparr>
         else
           let validation =
                 (if list_ex (\<lambda>npc. strict_eq (get_prop npc ''name'') (get_prop npcData ''name'')) existingNPCs
                  then validation\<lparr>warnings := warnings validation @ [NpcNameExists (get_prop npcData ''name'')]\<rparr>
                  else validation)
           in (case get_prop npcData ''age'' of
                 Some age \<Rightarrow>
                   if js_less js age 1 \<or> js_greater js age 1000
                   then validation\<lparr>valid := False,
                          warnings := warnings validation @ [NpcAgeOutOfRange]\<rparr>
                   else occupation_consistency js npcData gameState validation
               | None \<Rightarrow> occupation_consistency js npcData gameState validation))"

section \<open>Creation pipeline (\<open>systems/CreationSystem.js\<close>)\<close>

text \<open>
  A detection payload as the pipeline reads it. The payloads modelled propose entities of
  one kind, NPCs: the sections of \<open>createEntitiesFromDetection\<close> for the four other
  kinds are skipped when the payload has no array for them. The id of a proposed entity
  is a string; \<open>item_data\<close> holds its other properties.
\<close>

record npc_item =
  item_id :: ident
  item_data :: props

record entities_section =
  es_npcs :: "npc_item list option"

record relationship_proposal =
  rp_entity1 :: ident
  rp_entity2 :: ident
  rp_type :: "type_val option"
  rp_strength :: "rat option"
  rp_reason :: "string option"

record world_updates =
  wu_tension :: "rat option"
  wu_politicalStability :: "rat option"
  wu_economicState :: "rat option"
  wu_magicalActivity :: "rat option"
  wu_rumors :: "string list option"
  wu_news :: "string list option"

record detection =
  det_entities :: "entities_section option"
  det_relationships :: "relationship_proposal list option"
  det_worldUpdates :: "world_updates option"

text \<open>
  The \<open>reason\<close> of a failed item is \<open>validation.reason\<close> after a rejection and
  \<open>error.message\<close> after an exception; \<open>None\<close> is \<open>undefined\<close>.
\<close>

datatype failure_reason = ValidationReason message | ErrorMessage error

record failed_item =
  fi_data :: npc_item
  fi_reason :: "failure_reason option"

record creation_warning =
  cw_name :: "json option"
  cw_reason :: "message option"

record results =
  created_npcs :: "entity list"
  failed_npcs :: "failed_item list"
  res_warnings :: "creation_warning list"

definition empty_results :: results where
  "empty_results = \<lparr>created_npcs = [], failed_npcs = [], res_warnings = []\<rparr>"

record creation_system =
  entityManager :: entity_manager
  relationshipGraph :: relationship_graph
  worldState :: world_state
  creationQueue :: "detection list"
  processingLock :: bool

definition CreationSystem_new ::
  "entity_manager \<Rightarrow> relationship_graph \<Rightarrow> world_state \<Rightarrow> creation_system" where
  "CreationSystem_new em rg ws =
     \<lparr>entityManager = em, relationshipGraph = rg, worldState = ws,
      creationQueue = [], processingLock = False\<rparr>"

definition getPlayerState :: json where
  "getPlayerState =
     JObj [(''currentLocation'', JStr ''village_square''), (''level'', JNum 1),
           (''reputation'', JObj [(''heroic'', JNum 0), (''villainous'', JNum 0),
                                   (''mysterious'', JNum 0), (''diplomatic'', JNum 0)])]"

definition getGameState :: "creation_system \<Rightarrow> game_state" where
  "getGameState cs =
     \<lparr>gs_entities = entities (entityManager cs), gs_relationships = relationshipGraph cs,
      gs_worldState = worldState cs, gs_player = getPlayerState\<rparr>"

text \<open>
  The validation system is handed to the pipeline by its constructor: \<open>vs\<close> is its
  \<open>validateNPCCreation\<close>, which returns a validation or throws.
\<close>

type_synonym validator = "props \<Rightarrow> game_state \<Rightarrow> error + validation"

text \<open>One turn of the loop over \<open>detection.entities.npcs\<close>: the body of its \<open>try\<close>/\<open>catch\<close>.\<close>

definition create_npc ::
  "timestamp \<Rightarrow> validator \<Rightarrow> npc_item \<Rightarrow> results \<times> creation_system \<Rightarrow> results \<times> creation_system" where
  "create_npc now vs npcData st =
     (let res = fst st; cs = snd st
      in case vs (item_data npcData) (getGameState cs) of
           Inl err \<Rightarrow>
             (res\<lparr>failed_npcs := failed_npcs res @
                    [\<lparr>fi_data = npcData, fi_reason = Some (ErrorMessage err)\<rparr>]\<rparr>, cs)
         | Inr validation \<Rightarrow>
             if valid validation
             then (case createEntity now ''npc'' (item_id npcData) (item_data npcData) (entityManager cs) of
                     (Inr npc, em') \<Rightarrow>
                       (res\<lparr>created_npcs := created_npcs res @ [npc]\<rparr>, cs\<lparr>entityManager := em'\<rparr>)
                   | (Inl err, em') \<Rightarrow>
                       (res\<lparr>failed_npcs := failed_npcs res @
                              [\<lparr>fi_data = npcData, fi_reason = Some (ErrorMessage err)\<rparr>]\<rparr>,
                        cs\<lparr>entityManager := em'\<rparr>))
             else (res\<lparr>failed_npcs := failed_npcs res @
                          [\<lparr>fi_data = npcData,
                            fi_reason = map_option ValidationReason (v_reason validation)\<rparr>],
                        res_warnings := res_warnings res @
                          [\<lparr>cw_name = get_prop (item_data npcData) ''name'',
                            cw_reason = v_reason validation\<rparr>]\<rparr>, cs))"

fun create_npcs ::
  "timestamp \<Rightarrow> validator \<Rightarrow> npc_item list \<Rightarrow> results \<times> creation_system \<Rightarrow> results \<times> creation_system" where
  "create_npcs now vs [] st = st"
| "create_npcs now vs (npcData # rest) st = create_npcs now vs rest (create_npc now vs npcData st)"

definition createEntitiesFromDetection ::
  "timestamp \<Rightarrow> validator \<Rightarrow> detection \<Rightarrow> creation_system \<Rightarrow> results \<times> creation_system" where
  "createEntitiesFromDetection now vs detection cs =
     (case det_entities detection of
        None \<Rightarrow> (empty_results, cs)
      | Some ents \<Rightarrow>
          (case es_npcs ents of
             None \<Rightarrow> (empty_results, cs)
           | Some npcs \<Rightarrow> create_npcs now vs npcs (empty_results, cs)))"

text \<open>\<open>findEntity\<close>: the first kind, in the order of \<open>ENTITY_TYPES\<close>, that has the id.\<close>

fun find_in_kinds :: "entity_manager \<Rightarrow> ident \<Rightarrow> string list \<Rightarrow> error + entity option" where
  "find_in_kinds em entityId [] = Inr None"
| "find_in_kinds em entityId (entityType # rest) =
     (case getEntity em entityType entityId of
        Inl err \<Rightarrow> Inl err
      | Inr (Some entity) \<Rightarrow> Inr (Some entity)
      | Inr None \<Rightarrow> find_in_kinds em entityId rest)"

definition findEntity :: "creation_system \<Rightarrow> ident \<Rightarrow> error + entity option" where
  "findEntity cs entityId = find_in_kinds (entityManager cs) entityId ENTITY_TYPES"

text \<open>
  \<open>processRelationships\<close>: an exception inside the loop body is caught and logged, and
  the loop goes on.
\<close>

definition process_relationship ::
  "timestamp \<Rightarrow> creation_system \<Rightarrow> relationship_proposal \<Rightarrow> creation_system" where
  "process_relationship now cs rel =
     (case findEntity cs (rp_entity1 rel) of
        Inl err \<Rightarrow> cs
      | Inr entity1 \<Rightarrow>
          (case findEntity cs (rp_entity2 rel) of
             Inl err \<Rightarrow> cs
           | Inr entity2 \<Rightarrow>
               if entity1 \<noteq> None \<and> entity2 \<noteq> None
               then cs\<lparr>relationshipGraph :=
                         snd (setRelationship now (rp_entity1 rel) (rp_entity2 rel)
                                \<lparr>rd_type = rp_type rel, rd_strength = rp_strength rel,
                                 rd_reason = rp_reason rel, rd_established = Some now,
                                 rd_history = None\<rparr>
                                (relationshipGraph cs))\<rparr>
               else cs))"

definition processRelationships ::
  "timestamp \<Rightarrow> relationship_proposal list \<Rightarrow> creation_system \<Rightarrow> creation_system" where
  "processRelationships now rels cs = foldl (process_relationship now) cs rels"

text \<open>
  \<open>applyWorldUpdates\<close>: a delta is applied when it is truthy (present and not 0); an
  exception of \<open>updateGlobalParameter\<close> is not caught and ends the call.
\<close>

definition apply_delta ::
  "timestamp \<Rightarrow> string \<Rightarrow> rat option \<Rightarrow> world_state \<Rightarrow> (error + unit) \<times> world_state" where
  "apply_delta now parameter delta ws =
     (case delta of
        None \<Rightarrow> (Inr (), ws)
      | Some d \<Rightarrow>
          if d = 0 then (Inr (), ws)
          else (case updateGlobalParameter now parameter d ''AI-generated consequence'' ws of
                  (Inl err, ws') \<Rightarrow> (Inl err, ws')
                | (Inr v, ws') \<Rightarrow> (Inr (), ws')))"

definition applyWorldUpdates ::
  "timestamp \<Rightarrow> world_updates \<Rightarrow> world_state \<Rightarrow> (error + unit) \<times> world_state" where
  "applyWorldUpdates now updates ws =
     (case apply_delta now ''tension'' (wu_tension updates) ws of
        (Inl err, ws1) \<Rightarrow> (Inl err, ws1)
      | (Inr u1, ws1) \<Rightarrow>
     (case apply_delta now ''politicalStability'' (wu_politicalStability updates) ws1 of
        (Inl err, ws2) \<Rightarrow> (Inl err, ws2)
      | (Inr u2, ws2) \<Rightarrow>
     (case apply_delta now ''economicState'' (wu_economicState updates) ws2 of
        (Inl err, ws3) \<Rightarrow> (Inl err, ws3)
      | (Inr u3, ws3) \<Rightarrow>
     (case apply_delta now ''magicalActivity'' (wu_magicalActivity updates) ws3 of
        (Inl err, ws4) \<Rightarrow> (Inl err, ws4)
      | (Inr u4, ws4) \<Rightarrow>
          (let ws5 = foldl (\<lambda>w r. addRumor now r w) ws4
                       (case wu_rumors updates of None \<Rightarrow> [] | Some rs \<Rightarrow> rs);
               ws6 = foldl (\<lambda>w n. addNews now n w) ws5
                       (case wu_news updates of None \<Rightarrow> [] | Some ns \<Rightarrow> ns)
           in (Inr (), ws6))))))"

definition no_updates :: world_updates where
  "no_updates =
     \<lparr>wu_tension = None, wu_politicalStability = None, wu_economicState = None,
      wu_magicalActivity = None, wu_rumors = None, wu_news = None\<rparr>"

text \<open>
  \<open>processEntityCreation\<close>. A call that finds the lock set appends its payload to the
  queue and returns \<open>undefined\<close> (\<open>None\<close>). A call that finds it clear holds it until its
  \<open>finally\<close>; \<open>arrivals\<close> are the payloads of the calls made while it is suspended at an
  \<open>await\<close>, in the order they are made: each of them finds the lock set. When the
  in-flight call reaches its \<open>while\<close> loop it takes the queued payloads, oldest first,
  and runs \<open>createEntitiesFromDetection\<close> on each.
\<close>

definition enqueue :: "detection \<Rightarrow> creation_system \<Rightarrow> creation_system" where
  "enqueue detectionResult cs = cs\<lparr>creationQueue := creationQueue cs @ [detectionResult]\<rparr>"

fun drain_queue ::
  "timestamp \<Rightarrow> validator \<Rightarrow> detection list \<Rightarrow> creation_system \<Rightarrow> creation_system" where
  "drain_queue now vs [] cs = cs\<lparr>creationQueue := []\<rparr>"
| "drain_queue now vs (queuedResult # rest) cs =
     drain_queue now vs rest
       (snd (createEntitiesFromDetection now vs queuedResult (cs\<lparr>creationQueue := rest\<rparr>)))"

definition processEntityCreation ::
  "timestamp \<Rightarrow> validator \<Rightarrow> detection \<Rightarrow> detection list \<Rightarrow> creation_system
     \<Rightarrow> (error + results option) \<times> creation_system" where
  "processEntityCreation now vs detectionResult arrivals cs =
     (if processingLock cs then (Inr None, enqueue detectionResult cs)
      else
        let cs1 = cs\<lparr>processingLock := True\<rparr>;
            (results, cs2) = createEntitiesFromDetection now vs detectionResult cs1;
            cs3 = foldl (\<lambda>c a. enqueue a c) cs2 arrivals;
            cs4 = processRelationships now
                    (case det_relationships detectionResult of None \<Rightarrow> [] | Some rels \<Rightarrow> rels) cs3
        in case applyWorldUpdates now
                  (case det_worldUpdates detectionResult of None \<Rightarrow> no_updates | Some u \<Rightarrow> u)
                  (worldState cs4) of
             (Inl err, ws') \<Rightarrow> (Inl err, cs4\<lparr>worldState := ws', processingLock := False\<rparr>)
           | (Inr u, ws') \<Rightarrow>
               (Inr (Some results),
                (drain_queue now vs (creationQueue cs4) (cs4\<lparr>worldState := ws'\<rparr>))
                  \<lparr>processingLock := False\<rparr>))"

section \<open>Saving and loading (\<open>StoryEngine\<close> in \<open>unnamed/part_002\<close>)\<close>

text \<open>
  The three stores together, the export of all three, and the import of such an export
  into new instances.
\<close>

record stores =
  s_entityManager :: entity_manager
  s_relationshipGraph :: relationship_graph
  s_worldState :: world_state

definition export_stores :: "timestamp \<Rightarrow> stores \<Rightarrow> entities_export \<times> relationships_export \<times> world_export" where
  "export_stores now s =
     (exportEntities now (s_entityManager s),
      exportRelationships now (s_relationshipGraph s),
      exportWorldState now (s_worldState s))"

definition import_stores :: "entities_export \<times> relationships_export \<times> world_export \<Rightarrow> stores" where
  "import_stores x =
     (case x of (ee, re, we) \<Rightarrow>
        \<lparr>s_entityManager = importEntities ee EntityManager_new,
         s_relationshipGraph = importRelationships re RelationshipGraph_new,
         s_worldState = importWorldState we WorldState_new\<rparr>)"

text \<open>
  A parsed save document: each section is present or not. A section that is present has
  the shape the engine writes.
\<close>

record relationships_section =
  rs_playerStandings :: "(ident \<times> standing_data) list option"
  rs_entityRelationships :: "relationships_export option"

record save_document =
  doc_player :: "json option"
  doc_entities :: "(string \<times> (ident \<times> entity) list) list option"
  doc_relationships :: "relationships_section option"
  doc_worldState :: "world_export option"
  doc_storyContext :: "json option"
  doc_meta :: "json option"

record story_engine =
  se_player :: "json option"
  se_entityManager :: entity_manager
  se_relationshipGraph :: relationship_graph
  se_worldState :: world_state
  se_storyContext :: "json option"
  se_meta :: "json option"

definition hasOwnProperty :: "save_document \<Rightarrow> string \<Rightarrow> bool" where
  "hasOwnProperty gameState section =
     (if section = ''player'' then doc_player gameState \<noteq> None
      else if section = ''entities'' then doc_entities gameState \<noteq> None
      else if section = ''relationships'' then doc_relationships gameState \<noteq> None
      else if section = ''worldState'' then doc_worldState gameState \<noteq> None
      else if section = ''storyContext'' then doc_storyContext gameState \<noteq> None
      else if section = ''meta'' then doc_meta gameState \<noteq> None
      else False)"

definition validateSaveFile :: "save_document \<Rightarrow> bool" where
  "validateSaveFile gameState =
     list_all (hasOwnProperty gameState) [''player'', ''entities'', ''worldState'', ''meta'']"

text \<open>
  \<open>restoreGameState\<close> assigns section after section; an exception leaves what was
  assigned before it. The result is the exception, if any, and the engine as it is left.
  When the \<open>relationships\<close> section has no \<open>entityRelationships\<close>,
  \<open>importRelationships(undefined)\<close> has already replaced the edges by an empty map when
  reading \<open>data.relationships\<close> throws.
\<close>

definition restore_relationships ::
  "timestamp \<Rightarrow> save_document \<Rightarrow> story_engine \<Rightarrow> error option \<times> story_engine" where
  "restore_relationships now gameState se =
     (case doc_relationships gameState of
        None \<Rightarrow> (None, se)
      | Some rels \<Rightarrow>
          (case rs_entityRelationships rels of
             None \<Rightarrow>
               (Some TypeError,
                se\<lparr>se_relationshipGraph := (se_relationshipGraph se)\<lparr>relationships := []\<rparr>\<rparr>)
           | Some er \<Rightarrow>
               let se1 = se\<lparr>se_relationshipGraph := importRelationships er (se_relationshipGraph se)\<rparr>
               in (case rs_playerStandings rels of
                     None \<Rightarrow> (Some TypeError, se1)
                   | Some ps \<Rightarrow>
                       (None,
                        se1\<lparr>se_relationshipGraph :=
                              foldl (\<lambda>g kv. setPlayerStanding now (fst kv) (snd kv) g)
                                (se_relationshipGraph se1) ps\<rparr>))))"

definition restoreGameState ::
  "timestamp \<Rightarrow> save_document \<Rightarrow> story_engine \<Rightarrow> error option \<times> story_engine" where
  "restoreGameState now gameState se =
     (let se1 = se\<lparr>se_player := doc_player gameState\<rparr>;
          se2 = se1\<lparr>se_entityManager :=
                      importEntities
                        \<lparr>ee_entities = doc_entities gameState, ee_creationHistory = None,
                         ee_timestamp = None\<rparr>
                        (se_entityManager se1)\<rparr>
      in case restore_relationships now gameState se2 of
           (Some err, se3) \<Rightarrow> (Some err, se3)
         | (None, se3) \<Rightarrow>
             (case doc_worldState gameState of
                None \<Rightarrow> (Some TypeError, se3)
              | Some ws \<Rightarrow>
                  (None,
                   se3\<lparr>se_worldState := importWorldState ws (se_worldState se3),
                       se_storyContext := doc_storyContext gameState,
                       se_meta := doc_meta gameState\<rparr>)))"

text \<open>
  \<open>loadGame\<close> on the outcome of reading and parsing the file (\<open>None\<close>: one of the two
  threw). It returns \<open>true\<close> after a load, and \<open>false\<close> after reporting either that the
  save file validation failed or the message of an exception.
\<close>

datatype load_result = Loaded | SaveFileValidationFailed | FailedToLoadGame "error option"

fun returned :: "load_result \<Rightarrow> bool" where
  "returned Loaded = True"
| "returned SaveFileValidationFailed = False"
| "returned (FailedToLoadGame e) = False"

definition loadGame ::
  "timestamp \<Rightarrow> save_document option \<Rightarrow> story_engine \<Rightarrow> load_result \<times> story_engine" where
  "loadGame now parsed se =
     (case parsed of
        None \<Rightarrow> (FailedToLoadGame None, se)
      | Some gameState \<Rightarrow>
          if validateSaveFile gameState
          then (case restoreGameState now gameState se of
                  (Some err, se') \<Rightarrow> (FailedToLoadGame (Some err), se')
                | (None, se') \<Rightarrow>
                    if doc_meta gameState = Some JNull then (FailedToLoadGame (Some TypeError), se')
                    else (Loaded, se'))
          else (SaveFileValidationFailed, se))"

section \<open>The engine's validation system and example inputs\<close>

text \<open>
  \<open>StoryEngine\<close> hands the pipeline a \<open>new ValidationSystem()\<close>: its
  \<open>validateNPCCreation\<close> does not throw.
\<close>

definition ValidationSystem :: "coercions \<Rightarrow> validator" where
  "ValidationSystem js npcData gameState = Inr (validateNPCCreation js npcData gameState)"

text \<open>
  A proposed NPC with a name and a location; a tavern that already holds
  \<open>MAX_NPCS_PER_LOCATION\<close> NPCs; a payload of four NPCs, the last one for the tavern.
\<close>

definition villager :: "string \<Rightarrow> string \<Rightarrow> npc_item" where
  "villager i place = \<lparr>item_id = i, item_data = [(''name'', JStr i), (''location'', JStr place)]\<rparr>"

definition full_tavern :: "coercions \<Rightarrow> creation_system" where
  "full_tavern js =
     snd (create_npcs ''t0'' (ValidationSystem js)
            (map (\<lambda>i. villager i ''tavern'')
               [''p01'', ''p02'', ''p03'', ''p04'', ''p05'', ''p06'', ''p07'', ''p08'',
                ''p09'', ''p10'', ''p11'', ''p12'', ''p13'', ''p14'', ''p15''])
            (empty_results, CreationSystem_new EntityManager_new RelationshipGraph_new WorldState_new))"

definition newcomers :: detection where
  "newcomers =
     \<lparr>det_entities = Some \<lparr>es_npcs = Some [villager ''ann'' ''market'', villager ''bob'' ''market'',
                                             \<lparr>item_id = ''cat'', item_data = [(''name'', JStr ''cat'')]\<rparr>,
                                             villager ''dan'' ''tavern'']\<rparr>,
      det_relationships = None, det_worldUpdates = None\<rparr>"

text \<open>What a batch leaves behind: the ids created, the failed bucket, the warnings, the NPC ids stored.\<close>

definition batch_outcome ::
  "results \<times> creation_system \<Rightarrow> json option list \<times> failed_item list \<times> creation_warning list \<times> ident list" where
  "batch_outcome rs =
     (map (\<lambda>e. get_prop e ''id'') (created_npcs (fst rs)), failed_npcs (fst rs), res_warnings (fst rs),
      map fst (table_of (entities (entityManager (snd rs))) ''npc''))"

text \<open>
  A village of two NPCs; an empty payload \<open>batch_A\<close>; a payload \<open>batch_B\<close> that proposes an
  NPC, a relationship between the two villagers and a rumor.
\<close>

definition village :: "coercions \<Rightarrow> creation_system" where
  "village js =
     snd (create_npcs ''t0'' (ValidationSystem js) [villager ''xan'' ''market'', villager ''yul'' ''market'']
            (empty_results, CreationSystem_new EntityManager_new RelationshipGraph_new WorldState_new))"

definition batch_A :: detection where
  "batch_A = \<lparr>det_entities = None, det_relationships = None, det_worldUpdates = None\<rparr>"

definition batch_B :: detection where
  "batch_B =
     \<lparr>det_entities = Some \<lparr>es_npcs = Some [villager ''zed'' ''market'']\<rparr>,
      det_relationships =
        Some [\<lparr>rp_entity1 = ''xan'', rp_entity2 = ''yul'', rp_type = Some (TypeStr ''ally''),
               rp_strength = Some 70, rp_reason = Some ''old friends''\<rparr>],
      det_worldUpdates = Some (no_updates\<lparr>wu_rumors := Some [''a dragon was seen'']\<rparr>)\<rparr>"

text \<open>
  What a call of the pipeline leaves behind: whether it returned, the lock, the queue, the
  NPC ids stored, the strength of the edge between the two villagers, the rumors.
\<close>

definition pipeline_outcome ::
  "(error + results option) \<times> creation_system
     \<Rightarrow> bool \<times> bool \<times> detection list \<times> ident list \<times> rat option \<times> string list" where
  "pipeline_outcome rs =
     (case fst rs of Inl err \<Rightarrow> False | Inr r \<Rightarrow> True,
      processingLock (snd rs), creationQueue (snd rs),
      map fst (table_of (entities (entityManager (snd rs))) ''npc''),
      map_option r_strength (getRelationship (relationshipGraph (snd rs)) ''xan'' ''yul''),
      map ru_content (rumorMill (worldState (snd rs))))"

text \<open>
  Three stores with some content, an engine holding them, and a save document that has
  every required section but \<open>meta\<close>.
\<close>

definition example_stores :: stores where
  "example_stores =
     \<lparr>s_entityManager =
        snd (createEntity ''t0'' ''npc'' ''elder'' [(''name'', JStr ''Thane'')] EntityManager_new),
      s_relationshipGraph =
        setPlayerStanding ''t3'' ''guild''
          \<lparr>sd_value = Some 10, sd_history = None, sd_lastChange = None, sd_established = None\<rparr>
          graph_80_60,
      s_worldState = WorldState_new\<rparr>"

definition example_engine :: story_engine where
  "example_engine =
     \<lparr>se_player = Some (JObj [(''name'', JStr ''Traveler'')]),
      se_entityManager = s_entityManager example_stores,
      se_relationshipGraph = s_relationshipGraph example_stores,
      se_worldState = s_worldState example_stores,
      se_storyContext = Some (JObj [(''currentScene'', JStr ''introduction'')]),
      se_meta = Some (JObj [(''version'', JStr ''2.0'')])\<rparr>"

definition document_without_meta :: save_document where
  "document_without_meta =
     \<lparr>doc_player = Some (JObj [(''name'', JStr ''Stranger'')]),
      doc_entities = Some (entities EntityManager_new),
      doc_relationships = None,
      doc_worldState = Some (exportWorldState ''t5'' WorldState_new),
      doc_storyContext = None,
      doc_meta = None\<rparr>"

section \<open>Facts about the map operations\<close>

lemma map_of_Map_set: "map_of (Map_set k v m) = (map_of m)(k \<mapsto> v)"
  by (induction m) auto

lemma Map_get_Map_set_same: "Map_get (Map_set k v m) k = Some v"
  by (simp add: Map_get_def map_of_Map_set)

lemma Map_get_Map_set_other: "k' \<noteq> k \<Longrightarrow> Map_get (Map_set k v m) k' = Map_get m k'"
  by (simp add: Map_get_def map_of_Map_set)

lemma keys_Map_set: "fst ` set (Map_set k v m) = insert k (fst ` set m)"
  by (induction k v m rule: Map_set.induct) (simp_all add: insert_commute)

lemma distinct_Map_set: "distinct (map fst m) \<Longrightarrow> distinct (map fst (Map_set k v m))"
  by (induction k v m rule: Map_set.induct) (auto simp: keys_Map_set)

lemma slice_last_short: "length xs \<le> n \<Longrightarrow> slice_last n xs = xs"
  by (simp add: slice_last_def)

section \<open>Facts about the relationship graph\<close>

lemmas graph_eval = setRelationship_def getRelationship_def setRelationship_part004_def
  getRelationship_part004_def RelationshipGraph_new_def rdata_def inner_map_def Map_get_def Map_has_def
  or_type_def or_number_def or_str_def or_list_def Let_def blank_def is_space_def RELATIONSHIP_TYPES_def
  slice_last_def

lemma getRelationship_setRelationship:
  "getRelationship (snd (setRelationship now a b d g)) a b = Some (fst (setRelationship now a b d g))"
  by (simp add: getRelationship_def setRelationship_def Let_def Map_get_Map_set_same)








lemma indirect_loop_sum:
  "indirect_loop g b xs (s, n) =
     (s + sum_list (map (\<lambda>(r1, r2). (r_strength r1 * r_strength r2) / 100)
            (concat (map (\<lambda>(c, r1). case getRelationship g c b of None \<Rightarrow> [] | Some r2 \<Rightarrow> [(r1, r2)]) xs))),
      n + length (concat (map (\<lambda>(c, r1). case getRelationship g c b of None \<Rightarrow> [] | Some r2 \<Rightarrow> [(r1, r2)]) xs)))"
proof (induction xs arbitrary: s n)
  case Nil
  show ?case by simp
next
  case (Cons x xs)
  obtain c r1 where x: "x = (c, r1)" by (cases x)
  show ?case
    by (cases "getRelationship g c b") (simp_all add: x Cons.IH add.assoc)
qed

section \<open>Facts about the entity store\<close>

lemma Map_has_Map_set_same: "Map_has (Map_set k v m) k"
  by (simp add: Map_has_def map_of_Map_set)

lemma createEntity_success:
  assumes "createEntity now K I d em = (Inr e, em')"
  shows "\<exists>table. Map_get (entities em) K = Some table \<and> \<not> Map_has table I
           \<and> construct now K I d = Some e
           \<and> entities em' = Map_set K (Map_set I e table) (entities em)"
  using assms
  by (auto simp: createEntity_def Let_def split: option.splits if_splits)

lemma createEntity_new:
  "K \<in> set ENTITY_TYPES \<Longrightarrow> \<exists>e em'. createEntity now K I d EntityManager_new = (Inr e, em')"
  by (auto simp: createEntity_def EntityManager_new_def ENTITY_TYPES_def Map_get_def Map_has_def
        construct_def Let_def)

section \<open>Facts about validation and the pipeline\<close>

lemma NPC_explicit [code]:
  "NPC now eid data =
     [(''id'', JStr eid), (''type'', JStr ''npc''), (''created'', JStr now),
      (''lastModified'', JStr now),
      (''metadata'', or_json (get_prop data ''metadata'') (JObj [])),
      (''name'', or_json (get_prop data ''name'') (JStr ''Unknown'')),
      (''displayName'', or_json (get_prop data ''displayName'')
                          (or_json (get_prop data ''name'') (JStr ''Unknown''))),
      (''occupation'', or_json (get_prop data ''occupation'') (JStr ''unknown'')),
      (''age'', or_json (get_prop data ''age'') (JNum 30)),
      (''location'', or_json (get_prop data ''location'') JNull),
      (''traits'', or_json (get_prop data ''traits'') (JArr [])),
      (''backstory'', or_json (get_prop data ''backstory'') (JStr [])),
      (''goals'', or_json (get_prop data ''goals'') (JArr [])),
      (''secrets'', or_json (get_prop data ''secrets'') (JArr [])),
      (''mood'', or_json (get_prop data ''mood'') (JStr ''neutral'')),
      (''importance'', or_json (get_prop data ''importance'') (JStr ''medium'')),
      (''trust'', or_json (get_prop data ''trust'') (JNum 50)),
      (''fear'', or_json (get_prop data ''fear'') (JNum 10)),
      (''respect'', or_json (get_prop data ''respect'') (JNum 50)),
      (''love'', or_json (get_prop data ''love'') (JNum 0)),
      (''met'', or_json (get_prop data ''met'') (JBool False)),
      (''alive'', JBool (get_prop data ''alive'' \<noteq> Some (JBool False))),
      (''health'', or_json (get_prop data ''health'') (JNum 100)),
      (''lastSeen'', or_json (get_prop data ''lastSeen'') JNull),
      (''relationships'', or_json (get_prop data ''relationships'') (JObj []))]"
  by (simp add: NPC_def Entity_def assign_defaults_def assign_or_def Let_def type_default_def
        RELATIONSHIP_TYPES_def)

lemma validateNPCCreation_no_reason: "v_reason (validateNPCCreation js npcData gameState) = None"
  by (simp add: validateNPCCreation_def occupation_consistency_def Let_def
        split: option.splits prod.splits)

text \<open>
  The batch loop puts every proposed NPC in exactly one of the two buckets, and an entity
  that is stored stays stored, unchanged, whatever happens to the items after it.
\<close>

lemma createEntity_keeps:
  assumes "Map_get (table_of (entities em) K) i = Some e"
  shows "Map_get (table_of (entities (snd (createEntity now T j d em))) K) i = Some e"
proof (cases "Map_get (entities em) T")
  case None
  then show ?thesis using assms by (simp add: createEntity_def)
next
  case (Some table)
  show ?thesis
  proof (cases "Map_has table j")
    case True
    then show ?thesis using assms Some by (simp add: createEntity_def)
  next
    case False
    show ?thesis
    proof (cases "construct now T j d")
      case None
      then show ?thesis using assms Some False by (simp add: createEntity_def)
    next
      case (Some entity)
      have "Map_get (table_of (Map_set T (Map_set j entity table) (entities em)) K) i = Some e"
      proof (cases "K = T")
        case True
        then have "table_of (entities em) K = table" using \<open>Map_get (entities em) T = Some table\<close>
          by (simp add: table_of_def)
        then have "Map_get table i = Some e" using assms by simp
        moreover from this have "i \<noteq> j" using False by (auto simp: Map_has_def Map_get_def)
        ultimately show ?thesis using True
          by (simp add: table_of_def Map_get_Map_set_same Map_get_Map_set_other)
      next
        case False
        then show ?thesis using assms
          by (simp add: table_of_def Map_get_Map_set_other)
      qed
      then show ?thesis
        using \<open>Map_get (entities em) T = Some table\<close> False Some
        by (simp add: createEntity_def Let_def split: option.splits)
    qed
  qed
qed

lemma create_npc_keeps:
  assumes "Map_get (table_of (entities (entityManager (snd st))) K) i = Some e"
  shows "Map_get (table_of (entities (entityManager (snd (create_npc now vs x st)))) K) i = Some e"
proof (cases "vs (item_data x) (getGameState (snd st))")
  case (Inl err)
  then show ?thesis using assms by (simp add: create_npc_def Let_def)
next
  case (Inr v)
  show ?thesis
  proof (cases "valid v")
    case False
    then show ?thesis using assms Inr by (simp add: create_npc_def Let_def)
  next
    case True
    obtain res em' where c: "createEntity now ''npc'' (item_id x) (item_data x) (entityManager (snd st)) = (res, em')"
      by (cases "createEntity now ''npc'' (item_id x) (item_data x) (entityManager (snd st))")
    have "Map_get (table_of (entities em') K) i = Some e"
      using createEntity_keeps [OF assms, of now "''npc''" "item_id x" "item_data x"] c by simp
    then show ?thesis using Inr True c
      by (cases res) (simp_all add: create_npc_def Let_def)
  qed
qed

lemma create_npcs_keeps:
  "Map_get (table_of (entities (entityManager (snd st))) K) i = Some e \<Longrightarrow>
     Map_get (table_of (entities (entityManager (snd (create_npcs now vs xs st)))) K) i = Some e"
  by (induction xs arbitrary: st) (simp_all add: create_npc_keeps)

lemma create_npc_counts:
  "length (created_npcs (fst (create_npc now vs x st))) + length (failed_npcs (fst (create_npc now vs x st)))
     = Suc (length (created_npcs (fst st)) + length (failed_npcs (fst st)))"
  by (auto simp: create_npc_def Let_def split: sum.splits prod.splits)

lemma create_npcs_counts:
  "length (created_npcs (fst (create_npcs now vs xs st))) + length (failed_npcs (fst (create_npcs now vs xs st)))
     = length xs + (length (created_npcs (fst st)) + length (failed_npcs (fst st)))"
  by (induction xs arbitrary: st) (simp_all add: create_npc_counts)

section \<open>Facts about export and import\<close>

lemma Map_set_fresh: "k \<notin> fst ` set m \<Longrightarrow> Map_set k v m = m @ [(k, v)]"
  by (induction k v m rule: Map_set.induct) auto

lemma foldl_Map_set_distinct:
  "distinct (map fst (acc @ es)) \<Longrightarrow>
     foldl (\<lambda>m kv. Map_set (fst kv) (snd kv) m) acc es = acc @ es"
proof (induction es arbitrary: acc)
  case Nil
  show ?case by simp
next
  case (Cons e es)
  have fresh: "fst e \<notin> fst ` set acc" using Cons.prems by auto
  have "Map_set (fst e) (snd e) acc = acc @ [e]"
    using Map_set_fresh [OF fresh, of "snd e"] by simp
  moreover have "distinct (map fst ((acc @ [e]) @ es))" using Cons.prems by simp
  ultimately show ?case using Cons.IH [of "acc @ [e]"] by simp
qed

lemma from_entries_distinct: "distinct (map fst es) \<Longrightarrow> from_entries es = es"
  using foldl_Map_set_distinct [of "[]" es] by (simp add: from_entries_def)

lemma distinct_foldl_Map_set:
  "distinct (map fst acc) \<Longrightarrow> distinct (map fst (foldl (\<lambda>m kv. Map_set (fst kv) (f kv) m) acc es))"
  by (induction es arbitrary: acc) (simp_all add: distinct_Map_set)

lemma distinct_from_entries: "distinct (map fst (from_entries es))"
  using distinct_foldl_Map_set [of "[]" snd es] by (simp add: from_entries_def)

lemma inner_from_entries:
  "list_all (\<lambda>kv. distinct (map fst (snd kv))) rels \<Longrightarrow>
     map (\<lambda>kv. (fst kv, from_entries (snd kv))) rels = rels"
  by (induction rels) (simp_all add: from_entries_distinct)

lemma foldl_inner_from_entries:
  "list_all (\<lambda>kv. distinct (map fst (snd kv))) rels \<Longrightarrow>
     foldl (\<lambda>m kv. Map_set (fst kv) (from_entries (snd kv)) m) acc rels
       = foldl (\<lambda>m kv. Map_set (fst kv) (snd kv) m) acc rels"
  by (induction rels arbitrary: acc) (simp_all add: from_entries_distinct)

lemma import_export_relationships:
  assumes "graph_maps_wf g"
  shows "relationships (importRelationships (exportRelationships now g) g0) = relationships g"
    and "playerStandings (importRelationships (exportRelationships now g) g0) = playerStandings g"
proof -
  have d: "distinct (map fst (relationships g))"
    and i: "list_all (\<lambda>kv. distinct (map fst (snd kv))) (relationships g)"
    and p: "distinct (map fst (playerStandings g))"
    using assms by (simp_all add: graph_maps_wf_def)
  have "foldl (\<lambda>m kv. Map_set (fst kv) (from_entries (snd kv)) m) [] (relationships g) = relationships g"
    using foldl_inner_from_entries [OF i, of "[]"] from_entries_distinct [OF d]
    by (simp add: from_entries_def)
  then show "relationships (importRelationships (exportRelationships now g) g0) = relationships g"
    by (simp add: importRelationships_def exportRelationships_def inner_from_entries [OF i]
          from_entries_distinct [OF d])
  show "playerStandings (importRelationships (exportRelationships now g) g0) = playerStandings g"
    by (simp add: importRelationships_def exportRelationships_def from_entries_distinct [OF p])
qed

lemma wf_new: "graph_maps_wf RelationshipGraph_new"
  by (simp add: graph_maps_wf_def RelationshipGraph_new_def)

lemma list_all_Map_set:
  "list_all P m \<Longrightarrow> P (k, v) \<Longrightarrow> list_all P (Map_set k v m)"
  by (induction k v m rule: Map_set.induct) auto

lemma inner_map_distinct:
  "list_all (\<lambda>kv. distinct (map fst (snd kv))) (relationships g) \<Longrightarrow> distinct (map fst (inner_map g e))"
proof -
  assume a: "list_all (\<lambda>kv. distinct (map fst (snd kv))) (relationships g)"
  show ?thesis
  proof (cases "Map_get (relationships g) e")
    case None
    then show ?thesis by (simp add: inner_map_def)
  next
    case (Some m)
    then have "(e, m) \<in> set (relationships g)" by (simp add: Map_get_def map_of_SomeD)
    with a have "distinct (map fst m)" by (auto simp: list_all_iff)
    with Some show ?thesis by (simp add: inner_map_def)
  qed
qed

lemma wf_setRelationship:
  "graph_maps_wf g \<Longrightarrow> graph_maps_wf (snd (setRelationship now a b d g))"
  by (simp add: graph_maps_wf_def setRelationship_def Let_def distinct_Map_set list_all_Map_set
        inner_map_distinct)

lemma wf_setPlayerStanding:
  "graph_maps_wf g \<Longrightarrow> graph_maps_wf (setPlayerStanding now e st g)"
  by (simp add: graph_maps_wf_def setPlayerStanding_def distinct_Map_set)

lemma list_all_foldl_Map_set:
  "list_all P acc \<Longrightarrow> (\<And>kv. P (fst kv, f kv)) \<Longrightarrow>
     list_all P (foldl (\<lambda>m kv. Map_set (fst kv) (f kv) m) acc es)"
  by (induction es arbitrary: acc) (simp_all add: list_all_Map_set)

lemma wf_importRelationships: "graph_maps_wf (importRelationships data g)"
  unfolding graph_maps_wf_def importRelationships_def
  by (auto simp: distinct_from_entries split: option.splits
        intro!: distinct_foldl_Map_set list_all_foldl_Map_set)

lemma loadGame_complete_document:
  "loadGame ''t6'' (Some (document_without_meta\<lparr>doc_meta := Some (JObj [])\<rparr>)) example_engine
     = (Loaded, example_engine
          \<lparr>se_player := Some (JObj [(''name'', JStr ''Stranger'')]),
           se_entityManager := (se_entityManager example_engine)\<lparr>entities := entities EntityManager_new\<rparr>,
           se_worldState := importWorldState (exportWorldState ''t5'' WorldState_new) (se_worldState example_engine),
           se_storyContext := None,
           se_meta := Some (JObj [])\<rparr>)"
  by (simp add: loadGame_def validateSaveFile_def hasOwnProperty_def document_without_meta_def
        restoreGameState_def restore_relationships_def importEntities_def Let_def)

section \<open>Facts about the world state\<close>

text \<open>
  When the table has bounds under the upper-cased name, \<open>updateGlobalParameter\<close> clamps
  the sum into them and records the write; none of the names of a new world state
  upper-cases to a key of the table.
\<close>

lemma updateGlobalParameter_with_bounds:
  assumes "Map_get (globalParameters ws) p = Some v"
    and "Map_get WORLD_PARAMETERS (toUpperCase p) = Some b"
  shows "fst (updateGlobalParameter now p d r ws) = Inr (max (bmin b) (min (bmax b) (v + d)))"
    and "Map_get (globalParameters (snd (updateGlobalParameter now p d r ws))) p
           = Some (max (bmin b) (min (bmax b) (v + d)))"
    and "worldChanges (snd (updateGlobalParameter now p d r ws))
           = slice_last 100 (worldChanges ws @
               [ParameterChange \<lparr>pc_parameter = p, pc_oldValue = v,
                  pc_newValue = max (bmin b) (min (bmax b) (v + d)), pc_change = d,
                  pc_reason = r, pc_timestamp = now\<rparr>])"
  using assms
  by (simp_all add: updateGlobalParameter_def recordWorldChange_def Let_def Map_get_Map_set_same
        slice_last_short)

lemma no_bounds_for_recognized_names:
  "Map_get WORLD_PARAMETERS (toUpperCase p) = Some b \<Longrightarrow>
     p \<notin> set (map fst (globalParameters WorldState_new))"
  by (auto simp: WORLD_PARAMETERS_def WorldState_new_def Map_get_def toUpperCase_def upper_char_def
        split: if_splits)

section \<open>Claims about the relationship graph\<close>




text \<open>
  Claim C6. \<open>calculateRelationshipStrength(a, b)\<close> returns the strength of the direct
  edge \<open>a \<rightarrow> b\<close> when there is one; otherwise the average, over the two-hop paths
  \<open>a \<rightarrow> c \<rightarrow> b\<close>, of \<open>strength(a,c) * strength(c,b) / 100\<close>, and 0 when there is no
  such path: the loop of the source computes \<open>derived_strength\<close>.
\<close>

theorem C6_calculateRelationshipStrength_derived:
  "calculateRelationshipStrength g a b = derived_strength g a b"
  by (cases "getRelationship g a b")
     (simp_all add: calculateRelationshipStrength_def derived_strength_def two_hop_paths_def
        indirect_loop_sum)

text \<open>
  The example of the claim: no edge \<open>alice \<rightarrow> bob\<close>, edges \<open>alice \<rightarrow> carol\<close> of strength 80
  and \<open>carol \<rightarrow> bob\<close> of strength 60 give \<open>(80 * 60) / 100 = 48\<close>.
\<close>

theorem C6_derived_strength_48_witness:
  "getRelationship graph_80_60 ''alice'' ''bob'' = None
   \<and> map_option r_strength (getRelationship graph_80_60 ''alice'' ''carol'') = Some 80
   \<and> map_option r_strength (getRelationship graph_80_60 ''carol'' ''bob'') = Some 60
   \<and> calculateRelationshipStrength graph_80_60 ''alice'' ''bob'' = 48"
proof -
  have "derived_strength graph_80_60 ''alice'' ''bob'' = 48"
    by (simp add: derived_strength_def two_hop_paths_def graph_80_60_def graph_eval)
  then have "calculateRelationshipStrength graph_80_60 ''alice'' ''bob'' = 48"
    by (simp add: C6_calculateRelationshipStrength_derived)
  moreover have "getRelationship graph_80_60 ''alice'' ''bob'' = None"
    "map_option r_strength (getRelationship graph_80_60 ''alice'' ''carol'') = Some 80"
    "map_option r_strength (getRelationship graph_80_60 ''carol'' ''bob'') = Some 60"
    by (simp_all add: graph_80_60_def graph_eval)
  ultimately show ?thesis by simp
qed




text \<open>
  Claim C10. In \<open>core/RelationshipGraph.js\<close> a falsy field of the supplied data is
  replaced by its default in the stored edge: a missing or zero strength is stored as 50,
  a missing or empty type as \<open>neutral\<close>, a missing or empty reason as the empty string, a
  missing or empty \<open>established\<close> as the current time, a missing history as the empty
  list; so the stored strength is never 0.
\<close>

theorem C10_falsy_fields_default:
  assumes "setRelationship now a b d g = (r, g')"
  shows "getRelationship g' a b = Some r
    \<and> (rd_strength d = None \<or> rd_strength d = Some 0 \<longrightarrow> r_strength r = 50)
    \<and> (rd_type d = None \<or> rd_type d = Some (TypeStr []) \<longrightarrow> r_type r = TypeStr ''neutral'')
    \<and> (rd_reason d = None \<or> rd_reason d = Some [] \<longrightarrow> r_reason r = [])
    \<and> (rd_established d = None \<or> rd_established d = Some [] \<longrightarrow> r_established r = now)
    \<and> (rd_history d = None \<longrightarrow> r_history r = [])
    \<and> r_strength r \<noteq> 0"
proof -
  have r: "r = fst (setRelationship now a b d g)" and g': "g' = snd (setRelationship now a b d g)"
    using assms by simp_all
  have "getRelationship g' a b = Some r"
    unfolding r g' by (rule getRelationship_setRelationship)
  moreover have "r_strength r = or_number (rd_strength d) 50"
    and "r_type r = or_type (rd_type d) (TypeStr ''neutral'')"
    and "r_reason r = or_str (rd_reason d) []"
    and "r_established r = or_str (rd_established d) now"
    and "r_history r = or_list (rd_history d) []"
    unfolding r by (simp_all add: setRelationship_def Let_def)
  ultimately show ?thesis
    by (auto simp: or_number_def or_type_def or_str_def or_list_def split: option.splits)
qed

theorem C10_falsy_fields_default_witness:
  "r_strength (fst (setRelationship ''t'' ''a'' ''b'' (rdata (TypeStr []) 0) RelationshipGraph_new)) = 50
   \<and> r_type (fst (setRelationship ''t'' ''a'' ''b'' (rdata (TypeStr []) 0) RelationshipGraph_new)) = TypeStr ''neutral''
   \<and> getRelationship (snd (setRelationship ''t'' ''a'' ''b'' (rdata (TypeStr []) 0) RelationshipGraph_new)) ''a'' ''b''
      = Some (fst (setRelationship ''t'' ''a'' ''b'' (rdata (TypeStr []) 0) RelationshipGraph_new))"
  using C10_falsy_fields_default [OF prod.collapse [symmetric], of "''t''" "''a''" "''b''" "rdata (TypeStr []) 0" RelationshipGraph_new]
  by (simp add: rdata_def)

section \<open>Claims about the entity store\<close>

text \<open>
  Claim C5. After a successful \<open>createEntity\<close> of kind \<open>K\<close> and id \<open>I\<close> (which only one of
  the five kinds allows), a second \<open>createEntity\<close> of \<open>(K, I)\<close>, with any data, throws the
  error \<open>Entity I of type K already exists\<close> (the \<open>DuplicateEntity\<close> of the
  specification) and leaves the store as it was: the entity of the first call is still
  what \<open>getEntity\<close> returns.
\<close>

theorem C5_second_create_rejected:
  assumes "createEntity now K I d em = (Inr e, em')"
  shows "createEntity now2 K I d2 em' = (Inl (EntityAlreadyExists I K), em')
         \<and> getEntity em' K I = Inr (Some e) \<and> K \<in> set ENTITY_TYPES"
proof -
  obtain table where t: "Map_get (entities em) K = Some table" "\<not> Map_has table I"
      "construct now K I d = Some e"
      "entities em' = Map_set K (Map_set I e table) (entities em)"
    using createEntity_success [OF assms] by blast
  have g: "Map_get (entities em') K = Some (Map_set I e table)"
    by (simp add: t(4) Map_get_Map_set_same)
  have "createEntity now2 K I d2 em' = (Inl (EntityAlreadyExists I K), em')"
    by (simp add: createEntity_def g Map_has_Map_set_same)
  moreover have "getEntity em' K I = Inr (Some e)"
    by (simp add: getEntity_def g Map_get_Map_set_same)
  moreover have "K \<in> set ENTITY_TYPES"
    using t(3) by (auto simp: construct_def ENTITY_TYPES_def split: if_splits)
  ultimately show ?thesis by simp
qed

theorem C5_second_create_rejected_witness:
  "\<exists>e em'. createEntity ''t1'' ''npc'' ''elder'' [(''name'', JStr ''Thane'')] EntityManager_new = (Inr e, em')
     \<and> createEntity ''t2'' ''npc'' ''elder'' [(''name'', JStr ''Other'')] em'
         = (Inl (EntityAlreadyExists ''elder'' ''npc''), em')
     \<and> getEntity em' ''npc'' ''elder'' = Inr (Some e)"
proof -
  have "''npc'' \<in> set ENTITY_TYPES" by (simp add: ENTITY_TYPES_def)
  then obtain e em' where h:
    "createEntity ''t1'' ''npc'' ''elder'' [(''name'', JStr ''Thane'')] EntityManager_new = (Inr e, em')"
    using createEntity_new by blast
  from C5_second_create_rejected [OF h, of "''t2''" "[(''name'', JStr ''Other'')]"] h
  show ?thesis by simp
qed

section \<open>Claims about the world state\<close>

text \<open>
  Claim C2. The claim says that \<open>updateGlobalParameter\<close> clamps and records every write
  to a recognized parameter. On a new world state each of the four recognized names
  upper-cases to a key that \<open>WORLD_PARAMETERS\<close> does not have (\<open>TENSION\<close> where the table
  has \<open>GLOBAL_TENSION\<close>), so the call throws a \<open>TypeError\<close> and changes nothing: tension
  stays at 30 and no history record is written.
\<close>

theorem C2_updateGlobalParameter_throws:
  "updateGlobalParameter now ''tension'' change reason WorldState_new = (Inl TypeError, WorldState_new)
   \<and> updateGlobalParameter now ''politicalStability'' change reason WorldState_new
       = (Inl TypeError, WorldState_new)
   \<and> updateGlobalParameter now ''economicState'' change reason WorldState_new
       = (Inl TypeError, WorldState_new)
   \<and> updateGlobalParameter now ''magicalActivity'' change reason WorldState_new
       = (Inl TypeError, WorldState_new)
   \<and> Map_get (globalParameters WorldState_new) ''tension'' = Some 30
   \<and> worldChanges WorldState_new = []"
  by (simp add: updateGlobalParameter_def WorldState_new_def Map_get_def toUpperCase_def upper_char_def
        WORLD_PARAMETERS_def world_default_def)

section \<open>Claims about the creation pipeline\<close>

text \<open>
  Claim C3. A batch of four proposed NPCs is run against a tavern that is full: the three
  NPCs for other places are created and stored, the fourth is rejected and put in the
  failed bucket, and nothing is thrown. But the reason recorded with it is \<open>undefined\<close>,
  not a string (and the warning text interpolates \<open>undefined\<close>): the pipeline reads
  \<open>validation.reason\<close>, which \<open>validateNPCCreation\<close> never sets, for any input.
\<close>

theorem C3_rejected_npc_has_no_reason:
  "batch_outcome (createEntitiesFromDetection ''t1'' (ValidationSystem js) newcomers (full_tavern js))
     = ([Some (JStr ''ann''), Some (JStr ''bob''), Some (JStr ''cat'')],
        [\<lparr>fi_data = villager ''dan'' ''tavern'', fi_reason = None\<rparr>],
        [\<lparr>cw_name = Some (JStr ''dan''), cw_reason = None\<rparr>],
        [''p01'', ''p02'', ''p03'', ''p04'', ''p05'', ''p06'', ''p07'', ''p08'',
         ''p09'', ''p10'', ''p11'', ''p12'', ''p13'', ''p14'', ''p15'', ''ann'', ''bob'', ''cat''])
   \<and> v_reason (validateNPCCreation js npcData gameState) = None"
proof
  show "batch_outcome (createEntitiesFromDetection ''t1'' (ValidationSystem js) newcomers (full_tavern js))
     = ([Some (JStr ''ann''), Some (JStr ''bob''), Some (JStr ''cat'')],
        [\<lparr>fi_data = villager ''dan'' ''tavern'', fi_reason = None\<rparr>],
        [\<lparr>cw_name = Some (JStr ''dan''), cw_reason = None\<rparr>],
        [''p01'', ''p02'', ''p03'', ''p04'', ''p05'', ''p06'', ''p07'', ''p08'',
         ''p09'', ''p10'', ''p11'', ''p12'', ''p13'', ''p14'', ''p15'', ''ann'', ''bob'', ''cat''])"
    by code_simp
  show "v_reason (validateNPCCreation js npcData gameState) = None"
    by (rule validateNPCCreation_no_reason)
qed

text \<open>
  Claim C4. \<open>batch_B\<close> is submitted while the empty \<open>batch_A\<close> is in flight: it is queued,
  and when the call for \<open>batch_A\<close> returns the lock is clear, the queue is empty and the
  NPC of \<open>batch_B\<close> is stored; but its relationship and its rumor were never applied,
  because the loop over the queue runs \<open>createEntitiesFromDetection\<close> only. Submitted to
  an idle pipeline, the same \<open>batch_B\<close> leaves the edge of strength 70 and the rumor.
\<close>

theorem C4_queued_payload_entities_only:
  "pipeline_outcome (processEntityCreation ''t1'' (ValidationSystem js) batch_A [batch_B] (village js))
     = (True, False, [], [''xan'', ''yul'', ''zed''], None, [])
   \<and> pipeline_outcome (processEntityCreation ''t1'' (ValidationSystem js) batch_B [] (village js))
     = (True, False, [], [''xan'', ''yul'', ''zed''], Some 70, [''a dragon was seen''])"
  by code_simp

section \<open>Claims about saving and loading\<close>

text \<open>
  Claim C8. For all three stores in any state in which the lists standing for the maps
  of the relationship graph have no key twice (every state the operations reach),
  exporting each store and importing the exports into new instances gives back the same
  entity tables (per kind, by id), the same edges (per source and target, with all their
  fields), the same player standings and the same world-parameter values.
\<close>

theorem C8_export_import_round_trip:
  assumes "graph_maps_wf (s_relationshipGraph s)"
  shows "entities (s_entityManager (import_stores (export_stores now s))) = entities (s_entityManager s)
    \<and> relationships (s_relationshipGraph (import_stores (export_stores now s)))
        = relationships (s_relationshipGraph s)
    \<and> playerStandings (s_relationshipGraph (import_stores (export_stores now s)))
        = playerStandings (s_relationshipGraph s)
    \<and> globalParameters (s_worldState (import_stores (export_stores now s)))
        = globalParameters (s_worldState s)"
  by (simp add: import_stores_def export_stores_def import_export_relationships [OF assms]
        importEntities_def exportEntities_def importWorldState_def exportWorldState_def Let_def)

theorem C8_export_import_round_trip_witness:
  "graph_maps_wf (s_relationshipGraph example_stores)
   \<and> map fst (relationships (s_relationshipGraph example_stores)) = [''alice'', ''carol'']
   \<and> relationships (s_relationshipGraph (import_stores (export_stores ''t9'' example_stores)))
        = relationships (s_relationshipGraph example_stores)
   \<and> playerStandings (s_relationshipGraph (import_stores (export_stores ''t9'' example_stores)))
        = playerStandings (s_relationshipGraph example_stores)
   \<and> entities (s_entityManager (import_stores (export_stores ''t9'' example_stores)))
        = entities (s_entityManager example_stores)
   \<and> globalParameters (s_worldState (import_stores (export_stores ''t9'' example_stores)))
        = globalParameters (s_worldState example_stores)"
proof -
  have wf: "graph_maps_wf (s_relationshipGraph example_stores)"
    by (simp add: example_stores_def graph_80_60_def wf_setPlayerStanding wf_setRelationship wf_new)
  have keys: "map fst (relationships (s_relationshipGraph example_stores)) = [''alice'', ''carol'']"
    by (simp add: example_stores_def graph_80_60_def setPlayerStanding_def graph_eval)
  from C8_export_import_round_trip [OF wf, of "''t9''"] wf keys show ?thesis by simp
qed

text \<open>
  Claim C9. When the parsed save document lacks one of the sections \<open>player\<close>,
  \<open>entities\<close>, \<open>worldState\<close>, \<open>meta\<close>, \<open>loadGame\<close> reports that the save file
  validation failed, returns \<open>false\<close>, and leaves the engine (player, entity store,
  relationship graph, world state, story context, metadata) exactly as it was.
\<close>

theorem C9_incomplete_document_rejected:
  assumes "doc_player d = None \<or> doc_entities d = None \<or> doc_worldState d = None \<or> doc_meta d = None"
  shows "loadGame now (Some d) se = (SaveFileValidationFailed, se)
         \<and> \<not> returned (fst (loadGame now (Some d) se))"
proof -
  have "\<not> validateSaveFile d"
    using assms by (auto simp: validateSaveFile_def hasOwnProperty_def)
  then show ?thesis by (simp add: loadGame_def)
qed

theorem C9_incomplete_document_rejected_witness:
  "doc_meta document_without_meta = None
   \<and> doc_player document_without_meta \<noteq> None
   \<and> loadGame ''t6'' (Some document_without_meta) example_engine
        = (SaveFileValidationFailed, example_engine)"
proof -
  have m: "doc_meta document_without_meta = None"
    and p: "doc_player document_without_meta \<noteq> None"
    by (simp_all add: document_without_meta_def)
  from C9_incomplete_document_rejected [of document_without_meta "''t6''" example_engine] m p show ?thesis by simp
qed

end
